theory Spec2Isabelle
  imports Complex_Main
begin

section \<open>Geometry types\<close>

text \<open>
  Modelled from the spec: the vector, transform and mesh types come from the Eigen and FCL
  libraries, which the program only uses. The spec (section 3) describes them: a Vector3 has
  three floating-point components with dot product, cross product, subtraction and squared
  norm; a Transform is a rotation matrix plus a translation vector, applied to a vector; a
  Triangle is three vertex indices; a Mesh is an ordered sequence of vertices and an ordered
  sequence of triangles.

  In Parts 1 and 2 the C++ type \<open>double\<close> is idealised as \<^typ>\<open>real\<close>: rounding,
  infinities and NaN are outside that model. Part 3 repeats the triangle test over doubles
  with overflow and NaN, for the property that depends on them.
\<close>

datatype vec3 = Vec3 (vx: real) (vy: real) (vz: real)

definition dot :: "vec3 \<Rightarrow> vec3 \<Rightarrow> real" where
  "dot a b = vx a * vx b + vy a * vy b + vz a * vz b"

definition cross :: "vec3 \<Rightarrow> vec3 \<Rightarrow> vec3" where
  "cross a b = Vec3 (vy a * vz b - vz a * vy b)
                    (vz a * vx b - vx a * vz b)
                    (vx a * vy b - vy a * vx b)"

definition vsub :: "vec3 \<Rightarrow> vec3 \<Rightarrow> vec3" where
  "vsub a b = Vec3 (vx a - vx b) (vy a - vy b) (vz a - vz b)"

definition squaredNorm :: "vec3 \<Rightarrow> real" where
  "squaredNorm a = dot a a"

text \<open>
  Modelled from the spec: a fixed array of three elements (\<open>Vector3d U[3]\<close>, and the three
  indices of an FCL \<open>Triangle\<close>), read with \<open>[i]\<close>. The source only ever reads positions
  0, 1 and 2.
\<close>

datatype 'a arr3 = Arr3 'a 'a 'a

fun at3 :: "'a arr3 \<Rightarrow> nat \<Rightarrow> 'a" where
  "at3 (Arr3 a b c) i = (if i = 0 then a else if i = 1 then b else c)"

text \<open>
  Modelled from the spec: \<open>Transform3d\<close>, the three rows of the linear part and the
  translation; \<open>tf * v\<close> is the linear part applied to \<open>v\<close> plus the translation.
\<close>

datatype transform3 = Transform3 (row0: vec3) (row1: vec3) (row2: vec3) (translation: vec3)

definition apply_tf :: "transform3 \<Rightarrow> vec3 \<Rightarrow> vec3" where
  "apply_tf tf v = Vec3 (dot (row0 tf) v + vx (translation tf))
                        (dot (row1 tf) v + vy (translation tf))
                        (dot (row2 tf) v + vz (translation tf))"

definition Identity :: transform3 where
  "Identity = Transform3 (Vec3 1 0 0) (Vec3 0 1 0) (Vec3 0 0 1) (Vec3 0 0 0)"

text \<open>
  Modelled from the spec: the part of \<open>BVHModel\<close> the program reads. \<open>num_vertices\<close> and
  \<open>num_tris\<close> are the lengths of the two buffers.
\<close>

record mesh =
  vertices :: "vec3 list"
  tri_indices :: "nat arr3 list"

definition num_vertices :: "mesh \<Rightarrow> nat" where
  "num_vertices m = length (vertices m)"

definition num_tris :: "mesh \<Rightarrow> nat" where
  "num_tris m = length (tri_indices m)"

section \<open>Part 1: the separating axis test\<close>

text \<open>
  The two loops \<open>for (int i = 1; i < 3; ++i)\<close> of \<open>checkOverlapOnAxis\<close>: the running
  minimum and maximum of the projections of the vertices of one triangle.
\<close>

function proj_loop :: "vec3 \<Rightarrow> vec3 arr3 \<Rightarrow> nat \<Rightarrow> real \<Rightarrow> real \<Rightarrow> real \<times> real" where
  "proj_loop axis U i mn mx =
     (if i < 3 then
        (let projection = dot axis (at3 U i)
         in proj_loop axis U (i + 1) (min mn projection) (max mx projection))
      else (mn, mx))"
  by pat_completeness auto
termination
  by (relation "measure (\<lambda>(axis, U, i, mn, mx). 3 - i)") auto

declare proj_loop.simps [simp del]

definition checkOverlapOnAxis :: "vec3 \<Rightarrow> vec3 arr3 \<Rightarrow> vec3 arr3 \<Rightarrow> bool" where
  "checkOverlapOnAxis axis U V =
     (if squaredNorm axis < 1 / 10 ^ 8 then True
      else
        (let u0 = dot axis (at3 U 0);
             (minU, maxU) = proj_loop axis U 1 u0 u0;
             v0 = dot axis (at3 V 0);
             (minV, maxV) = proj_loop axis V 1 v0 v0
         in if maxU < minV \<or> maxV < minU then False else True))"

text \<open>
  The double loop of \<open>TriTriIntersect\<close> over the nine cross products of an edge of each
  triangle. Each function returns \<open>False\<close> where the source returns \<open>false\<close> from inside
  the loop, and \<open>True\<close> where the loop runs to its end.
\<close>

function cross_loop_j ::
  "vec3 arr3 \<Rightarrow> vec3 arr3 \<Rightarrow> vec3 arr3 \<Rightarrow> vec3 arr3 \<Rightarrow> nat \<Rightarrow> nat \<Rightarrow> bool" where
  "cross_loop_j edgeU edgeV U V i j =
     (if j < 3 then
        (let crossAxis = cross (at3 edgeU i) (at3 edgeV j)
         in if \<not> checkOverlapOnAxis crossAxis U V then False
            else cross_loop_j edgeU edgeV U V i (j + 1))
      else True)"
  by pat_completeness auto
termination
  by (relation "measure (\<lambda>(edgeU, edgeV, U, V, i, j). 3 - j)") auto

declare cross_loop_j.simps [simp del]

function cross_loop_i ::
  "vec3 arr3 \<Rightarrow> vec3 arr3 \<Rightarrow> vec3 arr3 \<Rightarrow> vec3 arr3 \<Rightarrow> nat \<Rightarrow> bool" where
  "cross_loop_i edgeU edgeV U V i =
     (if i < 3 then
        (if \<not> cross_loop_j edgeU edgeV U V i 0 then False
         else cross_loop_i edgeU edgeV U V (i + 1))
      else True)"
  by pat_completeness auto
termination
  by (relation "measure (\<lambda>(edgeU, edgeV, U, V, i). 3 - i)") auto

declare cross_loop_i.simps [simp del]

definition TriTriIntersect :: "vec3 \<Rightarrow> vec3 \<Rightarrow> vec3 \<Rightarrow> vec3 \<Rightarrow> vec3 \<Rightarrow> vec3 \<Rightarrow> bool" where
  "TriTriIntersect U0 U1 U2 V0 V1 V2 =
     (let U = Arr3 U0 U1 U2;
          V = Arr3 V0 V1 V2;
          edgeU = Arr3 (vsub U1 U0) (vsub U2 U1) (vsub U0 U2);
          edgeV = Arr3 (vsub V1 V0) (vsub V2 V1) (vsub V0 V2);
          normalU = cross (at3 edgeU 0) (at3 edgeU 1)
      in if \<not> checkOverlapOnAxis normalU U V then False
         else
           (let normalV = cross (at3 edgeV 0) (at3 edgeV 1)
            in if \<not> checkOverlapOnAxis normalV U V then False
               else cross_loop_i edgeU edgeV U V 0))"

section \<open>Part 2: broad phase and narrow phase\<close>

text \<open>
  The loop \<open>for (int i = 1; i < m->num_vertices; ++i)\<close> of \<open>PrimitiveBroadPhase\<close>: the
  running corners of the bounding box of the transformed vertices.
\<close>

function aabb_loop :: "transform3 \<Rightarrow> vec3 list \<Rightarrow> nat \<Rightarrow> vec3 \<Rightarrow> vec3 \<Rightarrow> vec3 \<times> vec3" where
  "aabb_loop tf vs i mn mx =
     (if i < length vs then
        (let v = apply_tf tf (vs ! i)
         in aabb_loop tf vs (i + 1)
              (Vec3 (min (vx mn) (vx v)) (min (vy mn) (vy v)) (min (vz mn) (vz v)))
              (Vec3 (max (vx mx) (vx v)) (max (vy mx) (vy v)) (max (vz mx) (vz v))))
      else (mn, mx))"
  by pat_completeness auto
termination
  by (relation "measure (\<lambda>(tf, vs, i, mn, mx). length vs - i)") auto

declare aabb_loop.simps [simp del]

definition PrimitiveBroadPhase :: "mesh \<Rightarrow> transform3 \<Rightarrow> mesh \<Rightarrow> transform3 \<Rightarrow> bool" where
  "PrimitiveBroadPhase m1 tf1 m2 tf2 =
     (if num_vertices m1 = 0 \<or> num_vertices m2 = 0 then False
      else
        (let p1 = apply_tf tf1 (vertices m1 ! 0);
             (min1, max1) = aabb_loop tf1 (vertices m1) 1 p1 p1;
             p2 = apply_tf tf2 (vertices m2 ! 0);
             (min2, max2) = aabb_loop tf2 (vertices m2) 1 p2 p2
         in if vx max1 < vx min2 \<or> vx max2 < vx min1 then False
            else if vy max1 < vy min2 \<or> vy max2 < vy min1 then False
            else if vz max1 < vz min2 \<or> vz max2 < vz min1 then False
            else True))"

text \<open>
  The narrow phase reads \<open>m->vertices[tri[k]]\<close> with no check of the index. C++ gives no
  meaning to a read past the end of the buffer; the model records it as the fault
  \<open>OutOfBoundsRead\<close>, so that every other outcome of the query is a returned boolean.
\<close>

datatype fault = OutOfBoundsRead

definition vertex_read :: "mesh \<Rightarrow> nat \<Rightarrow> fault + vec3" where
  "vertex_read m k =
     (if k < num_vertices m then Inr (vertices m ! k) else Inl OutOfBoundsRead)"

definition world_tri :: "mesh \<Rightarrow> transform3 \<Rightarrow> nat arr3 \<Rightarrow> fault + vec3 arr3" where
  "world_tri m tf tri =
     (case vertex_read m (at3 tri 0) of Inl e \<Rightarrow> Inl e | Inr p0 \<Rightarrow>
      (case vertex_read m (at3 tri 1) of Inl e \<Rightarrow> Inl e | Inr p1 \<Rightarrow>
       (case vertex_read m (at3 tri 2) of Inl e \<Rightarrow> Inl e | Inr p2 \<Rightarrow>
          Inr (Arr3 (apply_tf tf p0) (apply_tf tf p1) (apply_tf tf p2)))))"

text \<open>
  The two nested loops of \<open>AtayBayazitCollide\<close>, run in the order the source writes them,
  with the flag \<open>collision\<close> passed along. (The OpenMP pragma distributes the same
  iterations over threads; the model is the sequential program.)
\<close>

function narrow_loop_j ::
  "mesh \<Rightarrow> transform3 \<Rightarrow> mesh \<Rightarrow> transform3 \<Rightarrow> nat \<Rightarrow> nat \<Rightarrow> bool \<Rightarrow> fault + bool" where
  "narrow_loop_j m1 tf1 m2 tf2 i j collision =
     (if j < num_tris m2 then
        (if collision then narrow_loop_j m1 tf1 m2 tf2 i (j + 1) collision
         else
           (let tri1 = tri_indices m1 ! i;
                tri2 = tri_indices m2 ! j
            in case world_tri m1 tf1 tri1 of Inl e \<Rightarrow> Inl e | Inr U \<Rightarrow>
               (case world_tri m2 tf2 tri2 of Inl e \<Rightarrow> Inl e | Inr V \<Rightarrow>
                  narrow_loop_j m1 tf1 m2 tf2 i (j + 1)
                    (if TriTriIntersect (at3 U 0) (at3 U 1) (at3 U 2)
                                        (at3 V 0) (at3 V 1) (at3 V 2)
                     then True else collision))))
      else Inr collision)"
  by pat_completeness auto
termination
  by (relation "measure (\<lambda>(m1, tf1, m2, tf2, i, j, collision). num_tris m2 - j)") auto

declare narrow_loop_j.simps [simp del]

function narrow_loop_i ::
  "mesh \<Rightarrow> transform3 \<Rightarrow> mesh \<Rightarrow> transform3 \<Rightarrow> nat \<Rightarrow> bool \<Rightarrow> fault + bool" where
  "narrow_loop_i m1 tf1 m2 tf2 i collision =
     (if i < num_tris m1 then
        (case narrow_loop_j m1 tf1 m2 tf2 i 0 collision of Inl e \<Rightarrow> Inl e
         | Inr c \<Rightarrow> narrow_loop_i m1 tf1 m2 tf2 (i + 1) c)
      else Inr collision)"
  by pat_completeness auto
termination
  by (relation "measure (\<lambda>(m1, tf1, m2, tf2, i, collision). num_tris m1 - i)") auto

declare narrow_loop_i.simps [simp del]

definition AtayBayazitCollide :: "mesh \<Rightarrow> transform3 \<Rightarrow> mesh \<Rightarrow> transform3 \<Rightarrow> fault + bool" where
  "AtayBayazitCollide m1 tf1 m2 tf2 =
     (if \<not> PrimitiveBroadPhase m1 tf1 m2 tf2 then Inr False
      else narrow_loop_i m1 tf1 m2 tf2 0 False)"

section \<open>Part 3: the triangle test over doubles with overflow\<close>

text \<open>
  Modelled from the spec: the floating-point components of a Vector3 (section 3), as the
  values of an IEEE-754 binary64 \<open>double\<close>: a finite number, plus or minus infinity, or
  NaN. The rounding of a finite result is the parameter \<open>rnd\<close>; a rounded result of
  magnitude \<open>2^1024\<close> or more overflows to an infinity; infinity times zero and infinity
  minus infinity are NaN; every comparison with NaN is false. The two zeros are not told
  apart (the program never divides). \<open>std_min\<close> and \<open>std_max\<close> are \<open>std::min\<close> and
  \<open>std::max\<close>: \<open>(b < a) ? b : a\<close> and \<open>(a < b) ? b : a\<close>. The dot product adds its
  three products from left to right.
\<close>

datatype dbl = Fin real | PInf | NInf | NaN

definition huge :: real where
  "huge = 2 ^ 1024"

definition fp_round :: "(real \<Rightarrow> real) \<Rightarrow> real \<Rightarrow> dbl" where
  "fp_round rnd x =
     (let y = rnd x
      in if huge \<le> y then PInf else if y \<le> - huge then NInf else Fin y)"

fun fneg :: "dbl \<Rightarrow> dbl" where
  "fneg (Fin a) = Fin (- a)"
| "fneg PInf = NInf"
| "fneg NInf = PInf"
| "fneg NaN = NaN"

fun fadd :: "(real \<Rightarrow> real) \<Rightarrow> dbl \<Rightarrow> dbl \<Rightarrow> dbl" where
  "fadd rnd (Fin a) (Fin b) = fp_round rnd (a + b)"
| "fadd rnd (Fin a) PInf = PInf"
| "fadd rnd (Fin a) NInf = NInf"
| "fadd rnd PInf (Fin b) = PInf"
| "fadd rnd PInf PInf = PInf"
| "fadd rnd PInf NInf = NaN"
| "fadd rnd NInf (Fin b) = NInf"
| "fadd rnd NInf PInf = NaN"
| "fadd rnd NInf NInf = NInf"
| "fadd rnd NaN y = NaN"
| "fadd rnd x NaN = NaN"

definition fsub :: "(real \<Rightarrow> real) \<Rightarrow> dbl \<Rightarrow> dbl \<Rightarrow> dbl" where
  "fsub rnd x y = fadd rnd x (fneg y)"

definition inf_times :: "dbl \<Rightarrow> real \<Rightarrow> dbl" where
  "inf_times i b = (if b = 0 then NaN else if 0 < b then i else fneg i)"

fun fmul :: "(real \<Rightarrow> real) \<Rightarrow> dbl \<Rightarrow> dbl \<Rightarrow> dbl" where
  "fmul rnd (Fin a) (Fin b) = fp_round rnd (a * b)"
| "fmul rnd (Fin a) PInf = inf_times PInf a"
| "fmul rnd (Fin a) NInf = inf_times NInf a"
| "fmul rnd PInf (Fin b) = inf_times PInf b"
| "fmul rnd PInf PInf = PInf"
| "fmul rnd PInf NInf = NInf"
| "fmul rnd NInf (Fin b) = inf_times NInf b"
| "fmul rnd NInf PInf = NInf"
| "fmul rnd NInf NInf = PInf"
| "fmul rnd NaN y = NaN"
| "fmul rnd x NaN = NaN"

fun fless :: "dbl \<Rightarrow> dbl \<Rightarrow> bool" where
  "fless (Fin a) (Fin b) = (a < b)"
| "fless (Fin a) PInf = True"
| "fless (Fin a) NInf = False"
| "fless PInf y = False"
| "fless NInf (Fin b) = True"
| "fless NInf PInf = True"
| "fless NInf NInf = False"
| "fless NaN y = False"
| "fless x NaN = False"

definition std_min :: "dbl \<Rightarrow> dbl \<Rightarrow> dbl" where
  "std_min a b = (if fless b a then b else a)"

definition std_max :: "dbl \<Rightarrow> dbl \<Rightarrow> dbl" where
  "std_max a b = (if fless a b then b else a)"

datatype fvec3 = FVec3 (fx: dbl) (fy: dbl) (fz: dbl)

definition fdot :: "(real \<Rightarrow> real) \<Rightarrow> fvec3 \<Rightarrow> fvec3 \<Rightarrow> dbl" where
  "fdot rnd a b =
     fadd rnd (fadd rnd (fmul rnd (fx a) (fx b)) (fmul rnd (fy a) (fy b)))
              (fmul rnd (fz a) (fz b))"

definition fcross :: "(real \<Rightarrow> real) \<Rightarrow> fvec3 \<Rightarrow> fvec3 \<Rightarrow> fvec3" where
  "fcross rnd a b =
     FVec3 (fsub rnd (fmul rnd (fy a) (fz b)) (fmul rnd (fz a) (fy b)))
           (fsub rnd (fmul rnd (fz a) (fx b)) (fmul rnd (fx a) (fz b)))
           (fsub rnd (fmul rnd (fx a) (fy b)) (fmul rnd (fy a) (fx b)))"

definition fvsub :: "(real \<Rightarrow> real) \<Rightarrow> fvec3 \<Rightarrow> fvec3 \<Rightarrow> fvec3" where
  "fvsub rnd a b =
     FVec3 (fsub rnd (fx a) (fx b)) (fsub rnd (fy a) (fy b)) (fsub rnd (fz a) (fz b))"

definition fsquaredNorm :: "(real \<Rightarrow> real) \<Rightarrow> fvec3 \<Rightarrow> dbl" where
  "fsquaredNorm rnd a = fdot rnd a a"

text \<open>
  \<open>checkOverlapOnAxis\<close> and \<open>TriTriIntersect\<close> once more, statement by statement as in
  Part 1, over these values.
\<close>

function proj_loop_fp ::
  "(real \<Rightarrow> real) \<Rightarrow> fvec3 \<Rightarrow> fvec3 arr3 \<Rightarrow> nat \<Rightarrow> dbl \<Rightarrow> dbl \<Rightarrow> dbl \<times> dbl" where
  "proj_loop_fp rnd axis U i mn mx =
     (if i < 3 then
        (let projection = fdot rnd axis (at3 U i)
         in proj_loop_fp rnd axis U (i + 1) (std_min mn projection) (std_max mx projection))
      else (mn, mx))"
  by pat_completeness auto
termination
  by (relation "measure (\<lambda>(rnd, axis, U, i, mn, mx). 3 - i)") auto

declare proj_loop_fp.simps [simp del]

definition checkOverlapOnAxis_fp ::
  "(real \<Rightarrow> real) \<Rightarrow> fvec3 \<Rightarrow> fvec3 arr3 \<Rightarrow> fvec3 arr3 \<Rightarrow> bool" where
  "checkOverlapOnAxis_fp rnd axis U V =
     (if fless (fsquaredNorm rnd axis) (fp_round rnd (1 / 10 ^ 8)) then True
      else
        (let u0 = fdot rnd axis (at3 U 0);
             (minU, maxU) = proj_loop_fp rnd axis U 1 u0 u0;
             v0 = fdot rnd axis (at3 V 0);
             (minV, maxV) = proj_loop_fp rnd axis V 1 v0 v0
         in if fless maxU minV \<or> fless maxV minU then False else True))"

function cross_loop_j_fp ::
  "(real \<Rightarrow> real) \<Rightarrow> fvec3 arr3 \<Rightarrow> fvec3 arr3 \<Rightarrow> fvec3 arr3 \<Rightarrow> fvec3 arr3 \<Rightarrow> nat \<Rightarrow> nat \<Rightarrow> bool"
  where
  "cross_loop_j_fp rnd edgeU edgeV U V i j =
     (if j < 3 then
        (let crossAxis = fcross rnd (at3 edgeU i) (at3 edgeV j)
         in if \<not> checkOverlapOnAxis_fp rnd crossAxis U V then False
            else cross_loop_j_fp rnd edgeU edgeV U V i (j + 1))
      else True)"
  by pat_completeness auto
termination
  by (relation "measure (\<lambda>(rnd, edgeU, edgeV, U, V, i, j). 3 - j)") auto

declare cross_loop_j_fp.simps [simp del]

function cross_loop_i_fp ::
  "(real \<Rightarrow> real) \<Rightarrow> fvec3 arr3 \<Rightarrow> fvec3 arr3 \<Rightarrow> fvec3 arr3 \<Rightarrow> fvec3 arr3 \<Rightarrow> nat \<Rightarrow> bool" where
  "cross_loop_i_fp rnd edgeU edgeV U V i =
     (if i < 3 then
        (if \<not> cross_loop_j_fp rnd edgeU edgeV U V i 0 then False
         else cross_loop_i_fp rnd edgeU edgeV U V (i + 1))
      else True)"
  by pat_completeness auto
termination
  by (relation "measure (\<lambda>(rnd, edgeU, edgeV, U, V, i). 3 - i)") auto

declare cross_loop_i_fp.simps [simp del]

definition TriTriIntersect_fp ::
  "(real \<Rightarrow> real) \<Rightarrow> fvec3 \<Rightarrow> fvec3 \<Rightarrow> fvec3 \<Rightarrow> fvec3 \<Rightarrow> fvec3 \<Rightarrow> fvec3 \<Rightarrow> bool" where
  "TriTriIntersect_fp rnd U0 U1 U2 V0 V1 V2 =
     (let U = Arr3 U0 U1 U2;
          V = Arr3 V0 V1 V2;
          edgeU = Arr3 (fvsub rnd U1 U0) (fvsub rnd U2 U1) (fvsub rnd U0 U2);
          edgeV = Arr3 (fvsub rnd V1 V0) (fvsub rnd V2 V1) (fvsub rnd V0 V2);
          normalU = fcross rnd (at3 edgeU 0) (at3 edgeU 1)
      in if \<not> checkOverlapOnAxis_fp rnd normalU U V then False
         else
           (let normalV = fcross rnd (at3 edgeV 0) (at3 edgeV 1)
            in if \<not> checkOverlapOnAxis_fp rnd normalV U V then False
               else cross_loop_i_fp rnd edgeU edgeV U V 0))"

section \<open>Definitions used to state the properties\<close>

text \<open>
  The projected interval of a triangle on an axis: the least and the greatest of the three
  projections of its vertices.
\<close>

definition proj_min :: "vec3 \<Rightarrow> vec3 arr3 \<Rightarrow> real" where
  "proj_min axis U = Min {dot axis (at3 U 0), dot axis (at3 U 1), dot axis (at3 U 2)}"

definition proj_max :: "vec3 \<Rightarrow> vec3 arr3 \<Rightarrow> real" where
  "proj_max axis U = Max {dot axis (at3 U 0), dot axis (at3 U 1), dot axis (at3 U 2)}"

text \<open>
  The three edges of a triangle, and the eleven candidate axes of a pair of triangles: the
  two face normals and the nine cross products of an edge of each.
\<close>

definition tri_edges :: "vec3 arr3 \<Rightarrow> vec3 arr3" where
  "tri_edges T = Arr3 (vsub (at3 T 1) (at3 T 0)) (vsub (at3 T 2) (at3 T 1)) (vsub (at3 T 0) (at3 T 2))"

definition sat_axes :: "vec3 arr3 \<Rightarrow> vec3 arr3 \<Rightarrow> vec3 list" where
  "sat_axes U V =
     [cross (at3 (tri_edges U) 0) (at3 (tri_edges U) 1),
      cross (at3 (tri_edges V) 0) (at3 (tri_edges V) 1)] @
     concat (map (\<lambda>i. map (\<lambda>j. cross (at3 (tri_edges U) i) (at3 (tri_edges V) j)) [0, 1, 2])
                 [0, 1, 2])"

text \<open>
  The bounding box of a mesh under a transform, one coordinate at a time (\<open>c\<close> is
  \<^const>\<open>vx\<close>, \<^const>\<open>vy\<close> or \<^const>\<open>vz\<close>): the least and the greatest
  coordinate over all transformed vertices. Two boxes overlap on a coordinate when neither
  lies strictly below the other there.
\<close>

definition world_vertices :: "mesh \<Rightarrow> transform3 \<Rightarrow> vec3 list" where
  "world_vertices m tf = map (apply_tf tf) (vertices m)"

definition box_min :: "(vec3 \<Rightarrow> real) \<Rightarrow> mesh \<Rightarrow> transform3 \<Rightarrow> real" where
  "box_min c m tf = Min (c ` set (world_vertices m tf))"

definition box_max :: "(vec3 \<Rightarrow> real) \<Rightarrow> mesh \<Rightarrow> transform3 \<Rightarrow> real" where
  "box_max c m tf = Max (c ` set (world_vertices m tf))"

definition boxes_overlap_on ::
  "(vec3 \<Rightarrow> real) \<Rightarrow> mesh \<Rightarrow> transform3 \<Rightarrow> mesh \<Rightarrow> transform3 \<Rightarrow> bool" where
  "boxes_overlap_on c m1 tf1 m2 tf2 =
     (\<not> (box_max c m1 tf1 < box_min c m2 tf2 \<or> box_max c m2 tf2 < box_min c m1 tf1))"

text \<open>
  A mesh is index-consistent when every index of every triangle is inside the vertex
  buffer. \<open>tri_pair_hit\<close> is the triangle test on triangle \<open>i\<close> of the first mesh and
  triangle \<open>j\<close> of the second, each vertex transformed by the transform of its mesh.
\<close>

definition tri_in_bounds :: "mesh \<Rightarrow> nat arr3 \<Rightarrow> bool" where
  "tri_in_bounds m tri =
     (at3 tri 0 < num_vertices m \<and> at3 tri 1 < num_vertices m \<and> at3 tri 2 < num_vertices m)"

definition indices_in_bounds :: "mesh \<Rightarrow> bool" where
  "indices_in_bounds m = list_all (tri_in_bounds m) (tri_indices m)"

definition world_vertex :: "mesh \<Rightarrow> transform3 \<Rightarrow> nat \<Rightarrow> vec3" where
  "world_vertex m tf k = apply_tf tf (vertices m ! k)"

definition tri_pair_hit :: "mesh \<Rightarrow> transform3 \<Rightarrow> mesh \<Rightarrow> transform3 \<Rightarrow> nat \<Rightarrow> nat \<Rightarrow> bool" where
  "tri_pair_hit m1 tf1 m2 tf2 i j =
     (let tri1 = tri_indices m1 ! i;
          tri2 = tri_indices m2 ! j
      in TriTriIntersect
           (world_vertex m1 tf1 (at3 tri1 0)) (world_vertex m1 tf1 (at3 tri1 1))
           (world_vertex m1 tf1 (at3 tri1 2))
           (world_vertex m2 tf2 (at3 tri2 0)) (world_vertex m2 tf2 (at3 tri2 1))
           (world_vertex m2 tf2 (at3 tri2 2)))"

text \<open>
  For the test over doubles: the properties a rounding function is asked to have (it is
  monotone, odd, and leaves powers of two unchanged, as rounding to nearest does); a
  double, a vector and a triangle whose coordinates are finite and of magnitude at most
  \<open>b\<close>; the projected interval as \<open>std::min\<close> and \<open>std::max\<close> fold it; the edges and the
  eleven axes.
\<close>

definition rounding :: "(real \<Rightarrow> real) \<Rightarrow> bool" where
  "rounding rnd = (mono rnd \<and> (\<forall>k::nat. rnd (2 ^ k) = 2 ^ k) \<and> (\<forall>x. rnd (- x) = - rnd x))"

fun fin_le :: "real \<Rightarrow> dbl \<Rightarrow> bool" where
  "fin_le b (Fin r) = (\<bar>r\<bar> \<le> b)"
| "fin_le b PInf = False"
| "fin_le b NInf = False"
| "fin_le b NaN = False"

definition vec_le :: "real \<Rightarrow> fvec3 \<Rightarrow> bool" where
  "vec_le b v = (fin_le b (fx v) \<and> fin_le b (fy v) \<and> fin_le b (fz v))"

definition tri_le :: "real \<Rightarrow> fvec3 arr3 \<Rightarrow> bool" where
  "tri_le b T = (vec_le b (at3 T 0) \<and> vec_le b (at3 T 1) \<and> vec_le b (at3 T 2))"

definition fp_min :: "(real \<Rightarrow> real) \<Rightarrow> fvec3 \<Rightarrow> fvec3 arr3 \<Rightarrow> dbl" where
  "fp_min rnd axis U =
     std_min (std_min (fdot rnd axis (at3 U 0)) (fdot rnd axis (at3 U 1))) (fdot rnd axis (at3 U 2))"

definition fp_max :: "(real \<Rightarrow> real) \<Rightarrow> fvec3 \<Rightarrow> fvec3 arr3 \<Rightarrow> dbl" where
  "fp_max rnd axis U =
     std_max (std_max (fdot rnd axis (at3 U 0)) (fdot rnd axis (at3 U 1))) (fdot rnd axis (at3 U 2))"

definition fp_edges :: "(real \<Rightarrow> real) \<Rightarrow> fvec3 arr3 \<Rightarrow> fvec3 arr3" where
  "fp_edges rnd T =
     Arr3 (fvsub rnd (at3 T 1) (at3 T 0)) (fvsub rnd (at3 T 2) (at3 T 1))
          (fvsub rnd (at3 T 0) (at3 T 2))"

definition fp_axes :: "(real \<Rightarrow> real) \<Rightarrow> fvec3 arr3 \<Rightarrow> fvec3 arr3 \<Rightarrow> fvec3 list" where
  "fp_axes rnd U V =
     [fcross rnd (at3 (fp_edges rnd U) 0) (at3 (fp_edges rnd U) 1),
      fcross rnd (at3 (fp_edges rnd V) 0) (at3 (fp_edges rnd V) 1)] @
     concat (map (\<lambda>i. map (\<lambda>j. fcross rnd (at3 (fp_edges rnd U) i) (at3 (fp_edges rnd V) j))
                          [0, 1, 2])
                 [0, 1, 2])"

section \<open>Concrete inputs\<close>

definition triA :: "vec3 arr3" where
  "triA = Arr3 (Vec3 0 0 0) (Vec3 1 0 0) (Vec3 0 1 0)"

definition triA_up5 :: "vec3 arr3" where
  "triA_up5 = Arr3 (Vec3 0 0 5) (Vec3 1 0 5) (Vec3 0 1 5)"

definition translate_by :: "vec3 \<Rightarrow> transform3" where
  "translate_by t = Transform3 (Vec3 1 0 0) (Vec3 0 1 0) (Vec3 0 0 1) t"

definition mesh_tri :: mesh where
  "mesh_tri = \<lparr>vertices = [Vec3 0 0 0, Vec3 1 0 0, Vec3 0 1 0], tri_indices = [Arr3 0 1 2]\<rparr>"

definition mesh_no_tris :: mesh where
  "mesh_no_tris = \<lparr>vertices = [Vec3 0 0 0, Vec3 1 0 0, Vec3 0 1 0], tri_indices = []\<rparr>"

definition mesh_no_vertices :: mesh where
  "mesh_no_vertices = \<lparr>vertices = [], tri_indices = []\<rparr>"

definition mesh_bad_index :: mesh where
  "mesh_bad_index = \<lparr>vertices = [Vec3 0 0 0, Vec3 1 0 0, Vec3 0 1 0], tri_indices = [Arr3 0 1 7]\<rparr>"

text \<open>
  The rounding that changes nothing, and a coordinate whose square overflows.
\<close>

definition exact :: "real \<Rightarrow> real" where
  "exact x = x"

definition far :: real where
  "far = 2 ^ 600"

section \<open>Closed forms of the loops\<close>

lemma proj_loop_from_1:
  "proj_loop axis U 1 p q =
     (min (min p (dot axis (at3 U 1))) (dot axis (at3 U 2)),
      max (max q (dot axis (at3 U 1))) (dot axis (at3 U 2)))"
proof -
  have one: "proj_loop axis U 1 p q =
      proj_loop axis U 2 (min p (dot axis (at3 U 1))) (max q (dot axis (at3 U 1)))"
    by (subst proj_loop.simps) (simp add: Let_def numeral_2_eq_2)
  have two: "proj_loop axis U 2 a b =
      proj_loop axis U 3 (min a (dot axis (at3 U 2))) (max b (dot axis (at3 U 2)))" for a b
    by (subst proj_loop.simps) (simp add: Let_def numeral_2_eq_2 numeral_3_eq_3)
  have three: "proj_loop axis U 3 a b = (a, b)" for a b
    by (subst proj_loop.simps) simp
  show ?thesis by (simp only: one two three)
qed

lemma proj_min_alt:
  "proj_min axis U = min (min (dot axis (at3 U 0)) (dot axis (at3 U 1))) (dot axis (at3 U 2))"
  by (simp add: proj_min_def min.assoc)

lemma proj_max_alt:
  "proj_max axis U = max (max (dot axis (at3 U 0)) (dot axis (at3 U 1))) (dot axis (at3 U 2))"
  by (simp add: proj_max_def max.assoc)

lemma if_chain_bool: "(if c then True else if d then False else True) = (c \<or> \<not> d)"
  by simp

lemma checkOverlapOnAxis_closed:
  "checkOverlapOnAxis axis U V =
     (squaredNorm axis < 1 / 10 ^ 8 \<or> \<not> (proj_max axis U < proj_min axis V \<or> proj_max axis V < proj_min axis U))"
  unfolding checkOverlapOnAxis_def proj_loop_from_1 proj_min_alt proj_max_alt Let_def prod.case
  by (rule if_chain_bool)

lemma cross_loop_j_closed:
  "cross_loop_j eU eV U V i 0 =
     (checkOverlapOnAxis (cross (at3 eU i) (at3 eV 0)) U V \<and>
      checkOverlapOnAxis (cross (at3 eU i) (at3 eV 1)) U V \<and>
      checkOverlapOnAxis (cross (at3 eU i) (at3 eV 2)) U V)"
proof -
  have s: "cross_loop_j eU eV U V i j =
      (if j < 3 then checkOverlapOnAxis (cross (at3 eU i) (at3 eV j)) U V \<and>
                     cross_loop_j eU eV U V i (j + 1) else True)" for j
    by (subst cross_loop_j.simps) (simp add: Let_def)
  have "cross_loop_j eU eV U V i 3 = True" by (subst s) simp
  then have "cross_loop_j eU eV U V i 2 = checkOverlapOnAxis (cross (at3 eU i) (at3 eV 2)) U V"
    by (subst s) (simp add: numeral_3_eq_3 numeral_2_eq_2)
  then have "cross_loop_j eU eV U V i 1 =
     (checkOverlapOnAxis (cross (at3 eU i) (at3 eV 1)) U V \<and>
      checkOverlapOnAxis (cross (at3 eU i) (at3 eV 2)) U V)"
    by (subst s) (simp add: numeral_2_eq_2)
  then show ?thesis by (subst s) simp
qed

lemma cross_loop_i_closed:
  "cross_loop_i eU eV U V 0 =
     (cross_loop_j eU eV U V 0 0 \<and> cross_loop_j eU eV U V 1 0 \<and> cross_loop_j eU eV U V 2 0)"
proof -
  have s: "cross_loop_i eU eV U V i =
      (if i < 3 then cross_loop_j eU eV U V i 0 \<and> cross_loop_i eU eV U V (i + 1) else True)" for i
    by (subst cross_loop_i.simps) simp
  have "cross_loop_i eU eV U V 3 = True" by (subst s) simp
  then have "cross_loop_i eU eV U V 2 = cross_loop_j eU eV U V 2 0"
    by (subst s) (simp add: numeral_3_eq_3 numeral_2_eq_2)
  then have "cross_loop_i eU eV U V 1 = (cross_loop_j eU eV U V 1 0 \<and> cross_loop_j eU eV U V 2 0)"
    by (subst s) (simp add: numeral_2_eq_2)
  then show ?thesis by (subst s) simp
qed

lemma TriTriIntersect_closed:
  "TriTriIntersect U0 U1 U2 V0 V1 V2 =
     list_all (\<lambda>axis. checkOverlapOnAxis axis (Arr3 U0 U1 U2) (Arr3 V0 V1 V2))
       (sat_axes (Arr3 U0 U1 U2) (Arr3 V0 V1 V2))"
  by (simp add: TriTriIntersect_def Let_def cross_loop_i_closed cross_loop_j_closed
        sat_axes_def tri_edges_def)

section \<open>Properties of the axis test and of the triangle test\<close>

lemma proj_min_le_proj_max: "proj_min axis U \<le> proj_max axis U"
  unfolding proj_min_alt proj_max_alt by (simp add: min_le_iff_disj le_max_iff_disj)

lemma checkOverlapOnAxis_self: "checkOverlapOnAxis axis U U"
  using proj_min_le_proj_max [of axis U] by (simp add: checkOverlapOnAxis_closed)

lemma checkOverlapOnAxis_sym: "checkOverlapOnAxis axis U V = checkOverlapOnAxis axis V U"
  by (auto simp add: checkOverlapOnAxis_closed)

lemma dot_cross_swap: "dot (cross b a) u = - dot (cross a b) u"
  by (simp add: dot_def cross_def algebra_simps)

lemma squaredNorm_cross_swap: "squaredNorm (cross b a) = squaredNorm (cross a b)"
  by (simp add: squaredNorm_def dot_def cross_def algebra_simps)

lemma proj_min_cross_swap: "proj_min (cross b a) U = - proj_max (cross a b) U"
  by (simp add: proj_min_alt proj_max_alt dot_cross_swap [of b a] min_def max_def)

lemma proj_max_cross_swap: "proj_max (cross b a) U = - proj_min (cross a b) U"
  by (simp add: proj_min_alt proj_max_alt dot_cross_swap [of b a] min_def max_def)

lemma checkOverlapOnAxis_cross_swap:
  "checkOverlapOnAxis (cross b a) V U = checkOverlapOnAxis (cross a b) U V"
  by (auto simp add: checkOverlapOnAxis_closed squaredNorm_cross_swap [of b a]
        proj_min_cross_swap [of b a] proj_max_cross_swap [of b a])

lemma TriTriIntersect_sym:
  "TriTriIntersect U0 U1 U2 V0 V1 V2 = TriTriIntersect V0 V1 V2 U0 U1 U2"
proof -
  let ?U = "Arr3 U0 U1 U2" and ?V = "Arr3 V0 V1 V2"
  have nU: "checkOverlapOnAxis (cross (vsub U1 U0) (vsub U2 U1)) ?V ?U =
            checkOverlapOnAxis (cross (vsub U1 U0) (vsub U2 U1)) ?U ?V"
    by (rule checkOverlapOnAxis_sym)
  have nV: "checkOverlapOnAxis (cross (vsub V1 V0) (vsub V2 V1)) ?V ?U =
            checkOverlapOnAxis (cross (vsub V1 V0) (vsub V2 V1)) ?U ?V"
    by (rule checkOverlapOnAxis_sym)
  have "TriTriIntersect V0 V1 V2 U0 U1 U2 =
      (checkOverlapOnAxis (cross (vsub V1 V0) (vsub V2 V1)) ?V ?U \<and>
       checkOverlapOnAxis (cross (vsub U1 U0) (vsub U2 U1)) ?V ?U \<and>
       (checkOverlapOnAxis (cross (vsub V1 V0) (vsub U1 U0)) ?V ?U \<and>
        checkOverlapOnAxis (cross (vsub V1 V0) (vsub U2 U1)) ?V ?U \<and>
        checkOverlapOnAxis (cross (vsub V1 V0) (vsub U0 U2)) ?V ?U) \<and>
       (checkOverlapOnAxis (cross (vsub V2 V1) (vsub U1 U0)) ?V ?U \<and>
        checkOverlapOnAxis (cross (vsub V2 V1) (vsub U2 U1)) ?V ?U \<and>
        checkOverlapOnAxis (cross (vsub V2 V1) (vsub U0 U2)) ?V ?U) \<and>
       (checkOverlapOnAxis (cross (vsub V0 V2) (vsub U1 U0)) ?V ?U \<and>
        checkOverlapOnAxis (cross (vsub V0 V2) (vsub U2 U1)) ?V ?U \<and>
        checkOverlapOnAxis (cross (vsub V0 V2) (vsub U0 U2)) ?V ?U))"
    by (simp add: TriTriIntersect_closed sat_axes_def tri_edges_def)
  also have "\<dots> =
      (checkOverlapOnAxis (cross (vsub V1 V0) (vsub V2 V1)) ?U ?V \<and>
       checkOverlapOnAxis (cross (vsub U1 U0) (vsub U2 U1)) ?U ?V \<and>
       (checkOverlapOnAxis (cross (vsub U1 U0) (vsub V1 V0)) ?U ?V \<and>
        checkOverlapOnAxis (cross (vsub U2 U1) (vsub V1 V0)) ?U ?V \<and>
        checkOverlapOnAxis (cross (vsub U0 U2) (vsub V1 V0)) ?U ?V) \<and>
       (checkOverlapOnAxis (cross (vsub U1 U0) (vsub V2 V1)) ?U ?V \<and>
        checkOverlapOnAxis (cross (vsub U2 U1) (vsub V2 V1)) ?U ?V \<and>
        checkOverlapOnAxis (cross (vsub U0 U2) (vsub V2 V1)) ?U ?V) \<and>
       (checkOverlapOnAxis (cross (vsub U1 U0) (vsub V0 V2)) ?U ?V \<and>
        checkOverlapOnAxis (cross (vsub U2 U1) (vsub V0 V2)) ?U ?V \<and>
        checkOverlapOnAxis (cross (vsub U0 U2) (vsub V0 V2)) ?U ?V))"
    unfolding nU nV
      checkOverlapOnAxis_cross_swap [of "vsub V1 V0" "vsub U1 U0" ?V ?U]
      checkOverlapOnAxis_cross_swap [of "vsub V1 V0" "vsub U2 U1" ?V ?U]
      checkOverlapOnAxis_cross_swap [of "vsub V1 V0" "vsub U0 U2" ?V ?U]
      checkOverlapOnAxis_cross_swap [of "vsub V2 V1" "vsub U1 U0" ?V ?U]
      checkOverlapOnAxis_cross_swap [of "vsub V2 V1" "vsub U2 U1" ?V ?U]
      checkOverlapOnAxis_cross_swap [of "vsub V2 V1" "vsub U0 U2" ?V ?U]
      checkOverlapOnAxis_cross_swap [of "vsub V0 V2" "vsub U1 U0" ?V ?U]
      checkOverlapOnAxis_cross_swap [of "vsub V0 V2" "vsub U2 U1" ?V ?U]
      checkOverlapOnAxis_cross_swap [of "vsub V0 V2" "vsub U0 U2" ?V ?U]
    by (rule refl)
  also have "\<dots> = TriTriIntersect U0 U1 U2 V0 V1 V2"
    by (auto simp add: TriTriIntersect_closed sat_axes_def tri_edges_def)
  finally show ?thesis by (rule sym)
qed

lemma TriTriIntersect_self: "TriTriIntersect U0 U1 U2 U0 U1 U2"
  by (simp add: TriTriIntersect_closed list_all_iff checkOverlapOnAxis_self)

section \<open>Properties of the broad phase and of the narrow phase\<close>

lemma Min_insert_min:
  "finite S \<Longrightarrow> Min (insert (min a p) S) = Min (insert (a::real) (insert p S))"
  by (cases "S = {}") (simp_all add: min.assoc)

lemma Max_insert_max:
  "finite S \<Longrightarrow> Max (insert (max a p) S) = Max (insert (a::real) (insert p S))"
  by (cases "S = {}") (simp_all add: max.assoc)

lemma aabb_loop_closed:
  "aabb_loop tf vs i mn mx =
     (Vec3 (Min (insert (vx mn) (vx ` set (map (apply_tf tf) (drop i vs)))))
           (Min (insert (vy mn) (vy ` set (map (apply_tf tf) (drop i vs)))))
           (Min (insert (vz mn) (vz ` set (map (apply_tf tf) (drop i vs))))),
      Vec3 (Max (insert (vx mx) (vx ` set (map (apply_tf tf) (drop i vs)))))
           (Max (insert (vy mx) (vy ` set (map (apply_tf tf) (drop i vs)))))
           (Max (insert (vz mx) (vz ` set (map (apply_tf tf) (drop i vs))))))"
proof (induction tf vs i mn mx rule: aabb_loop.induct)
  case (1 tf vs i mn mx)
  show ?case
  proof (cases "i < length vs")
    case True
    then have d: "drop i vs = vs ! i # drop (i + 1) vs"
      by (simp add: Cons_nth_drop_Suc)
    have step: "aabb_loop tf vs i mn mx =
        aabb_loop tf vs (i + 1)
          (Vec3 (min (vx mn) (vx (apply_tf tf (vs ! i)))) (min (vy mn) (vy (apply_tf tf (vs ! i))))
                (min (vz mn) (vz (apply_tf tf (vs ! i)))))
          (Vec3 (max (vx mx) (vx (apply_tf tf (vs ! i)))) (max (vy mx) (vy (apply_tf tf (vs ! i))))
                (max (vz mx) (vz (apply_tf tf (vs ! i)))))"
      by (subst aabb_loop.simps) (simp add: True Let_def)
    show ?thesis
      unfolding step 1 [OF True refl] d
      by (simp add: Min_insert_min Max_insert_max del: Min_insert Max_insert)
  next
    case False
    then show ?thesis
      by (subst aabb_loop.simps) (cases mn; cases mx; simp)
  qed
qed

lemma PrimitiveBroadPhase_closed:
  assumes "num_vertices m1 \<noteq> 0" "num_vertices m2 \<noteq> 0"
  shows "PrimitiveBroadPhase m1 tf1 m2 tf2 =
     (boxes_overlap_on vx m1 tf1 m2 tf2 \<and> boxes_overlap_on vy m1 tf1 m2 tf2 \<and>
      boxes_overlap_on vz m1 tf1 m2 tf2)"
proof -
  have s: "insert (c (apply_tf tf (vertices m ! 0))) (c ` set (map (apply_tf tf) (drop 1 (vertices m))))
      = c ` set (world_vertices m tf)" if "num_vertices m \<noteq> 0" for c :: "vec3 \<Rightarrow> real" and m tf
  proof -
    from that have "vertices m = vertices m ! 0 # drop 1 (vertices m)"
      by (cases "vertices m") (simp_all add: num_vertices_def)
    then have "world_vertices m tf =
        apply_tf tf (vertices m ! 0) # map (apply_tf tf) (drop 1 (vertices m))"
      unfolding world_vertices_def by (metis list.simps(9))
    then show ?thesis by simp
  qed
  show ?thesis
    using assms
    unfolding PrimitiveBroadPhase_def aabb_loop_closed Let_def prod.case vec3.sel
      s [OF assms(1)] s [OF assms(2)] boxes_overlap_on_def box_min_def box_max_def
    by auto
qed

lemma PrimitiveBroadPhase_empty:
  "num_vertices m1 = 0 \<or> num_vertices m2 = 0 \<Longrightarrow> PrimitiveBroadPhase m1 tf1 m2 tf2 = False"
  by (simp add: PrimitiveBroadPhase_def)

lemma PrimitiveBroadPhase_sym:
  "PrimitiveBroadPhase m1 tf1 m2 tf2 = PrimitiveBroadPhase m2 tf2 m1 tf1"
  by (auto simp add: PrimitiveBroadPhase_def Let_def split: prod.splits)

lemma world_tri_in_bounds:
  "tri_in_bounds m tri \<Longrightarrow>
   world_tri m tf tri =
     Inr (Arr3 (world_vertex m tf (at3 tri 0)) (world_vertex m tf (at3 tri 1))
               (world_vertex m tf (at3 tri 2)))"
  by (simp add: tri_in_bounds_def world_tri_def vertex_read_def world_vertex_def)

lemma indices_in_boundsD:
  "indices_in_bounds m \<Longrightarrow> i < num_tris m \<Longrightarrow> tri_in_bounds m (tri_indices m ! i)"
  by (simp add: indices_in_bounds_def num_tris_def list_all_length)

lemma ex_from_split:
  assumes "j < (n::nat)"
  shows "(\<exists>j'. j \<le> j' \<and> j' < n \<and> P j') = (P j \<or> (\<exists>j'. j + 1 \<le> j' \<and> j' < n \<and> P j'))"
proof (intro iffI)
  assume "\<exists>j'. j \<le> j' \<and> j' < n \<and> P j'"
  then obtain j' where a: "j \<le> j'" "j' < n" "P j'" by blast
  show "P j \<or> (\<exists>j'. j + 1 \<le> j' \<and> j' < n \<and> P j')"
  proof (cases "j' = j")
    case True
    then show ?thesis using a by simp
  next
    case False
    then have "j + 1 \<le> j'" using a by simp
    then show ?thesis using a by blast
  qed
next
  assume "P j \<or> (\<exists>j'. j + 1 \<le> j' \<and> j' < n \<and> P j')"
  then show "\<exists>j'. j \<le> j' \<and> j' < n \<and> P j'"
  proof
    assume "P j"
    then show ?thesis using assms by blast
  next
    assume "\<exists>j'. j + 1 \<le> j' \<and> j' < n \<and> P j'"
    then obtain j' where "j + 1 \<le> j'" "j' < n" "P j'" by blast
    moreover from this have "j \<le> j'" by simp
    ultimately show ?thesis by blast
  qed
qed

lemma narrow_loop_j_closed:
  assumes "indices_in_bounds m1" "indices_in_bounds m2" "i < num_tris m1"
  shows "narrow_loop_j m1 tf1 m2 tf2 i j collision =
     Inr (collision \<or> (\<exists>j'. j \<le> j' \<and> j' < num_tris m2 \<and> tri_pair_hit m1 tf1 m2 tf2 i j'))"
  using assms
proof (induction m1 tf1 m2 tf2 i j collision rule: narrow_loop_j.induct)
  case (1 m1 tf1 m2 tf2 i j collision)
  show ?case
  proof (cases "j < num_tris m2")
    case False
    then show ?thesis by (subst narrow_loop_j.simps) auto
  next
    case inrange: True
    have range: "(\<exists>j'. j \<le> j' \<and> j' < num_tris m2 \<and> tri_pair_hit m1 tf1 m2 tf2 i j') =
        (tri_pair_hit m1 tf1 m2 tf2 i j \<or>
         (\<exists>j'. j + 1 \<le> j' \<and> j' < num_tris m2 \<and> tri_pair_hit m1 tf1 m2 tf2 i j'))"
      by (rule ex_from_split [OF inrange])
    show ?thesis
    proof (cases collision)
      case True
      have "narrow_loop_j m1 tf1 m2 tf2 i j collision = narrow_loop_j m1 tf1 m2 tf2 i (j + 1) collision"
        by (subst narrow_loop_j.simps) (simp add: inrange True)
      also have "\<dots> = Inr True"
        using "1.IH"(1) [OF inrange True "1.prems"] True by simp
      finally show ?thesis using True by simp
    next
      case False
      let ?U = "Arr3 (world_vertex m1 tf1 (at3 (tri_indices m1 ! i) 0))
                     (world_vertex m1 tf1 (at3 (tri_indices m1 ! i) 1))
                     (world_vertex m1 tf1 (at3 (tri_indices m1 ! i) 2))"
      let ?V = "Arr3 (world_vertex m2 tf2 (at3 (tri_indices m2 ! j) 0))
                     (world_vertex m2 tf2 (at3 (tri_indices m2 ! j) 1))
                     (world_vertex m2 tf2 (at3 (tri_indices m2 ! j) 2))"
      have U: "world_tri m1 tf1 (tri_indices m1 ! i) = Inr ?U"
        using "1.prems" by (simp add: world_tri_in_bounds indices_in_boundsD)
      have V: "world_tri m2 tf2 (tri_indices m2 ! j) = Inr ?V"
        using "1.prems" inrange by (simp add: world_tri_in_bounds indices_in_boundsD)
      have hit: "TriTriIntersect (at3 ?U 0) (at3 ?U 1) (at3 ?U 2) (at3 ?V 0) (at3 ?V 1) (at3 ?V 2)
          = tri_pair_hit m1 tf1 m2 tf2 i j"
        by (simp add: tri_pair_hit_def Let_def)
      have "narrow_loop_j m1 tf1 m2 tf2 i j collision =
          narrow_loop_j m1 tf1 m2 tf2 i (j + 1)
            (if TriTriIntersect (at3 ?U 0) (at3 ?U 1) (at3 ?U 2) (at3 ?V 0) (at3 ?V 1) (at3 ?V 2)
             then True else collision)"
        by (subst narrow_loop_j.simps) (simp add: inrange False U V Let_def del: at3.simps)
      also have "\<dots> = Inr ((if TriTriIntersect (at3 ?U 0) (at3 ?U 1) (at3 ?U 2) (at3 ?V 0) (at3 ?V 1) (at3 ?V 2)
             then True else collision) \<or>
           (\<exists>j'. j + 1 \<le> j' \<and> j' < num_tris m2 \<and> tri_pair_hit m1 tf1 m2 tf2 i j'))"
        by (rule "1.IH"(2) [OF inrange False refl refl U V "1.prems"])
      finally show ?thesis
        unfolding hit range using False by simp
    qed
  qed
qed

lemma narrow_loop_i_closed:
  assumes "indices_in_bounds m1" "indices_in_bounds m2"
  shows "narrow_loop_i m1 tf1 m2 tf2 i collision =
     Inr (collision \<or> (\<exists>i'. i \<le> i' \<and> i' < num_tris m1 \<and>
                            (\<exists>j'. j' < num_tris m2 \<and> tri_pair_hit m1 tf1 m2 tf2 i' j')))"
  using assms
proof (induction m1 tf1 m2 tf2 i collision rule: narrow_loop_i.induct)
  case (1 m1 tf1 m2 tf2 i collision)
  show ?case
  proof (cases "i < num_tris m1")
    case False
    then show ?thesis by (subst narrow_loop_i.simps) auto
  next
    case True
    let ?row = "collision \<or> (\<exists>j'. j' < num_tris m2 \<and> tri_pair_hit m1 tf1 m2 tf2 i j')"
    have row: "narrow_loop_j m1 tf1 m2 tf2 i 0 collision = Inr ?row"
      using narrow_loop_j_closed [OF "1.prems" True, of tf1 tf2 0 collision] by simp
    have "narrow_loop_i m1 tf1 m2 tf2 i collision = narrow_loop_i m1 tf1 m2 tf2 (i + 1) ?row"
      by (subst narrow_loop_i.simps) (simp add: True row)
    also have "\<dots> = Inr (?row \<or> (\<exists>i'. i + 1 \<le> i' \<and> i' < num_tris m1 \<and>
                            (\<exists>j'. j' < num_tris m2 \<and> tri_pair_hit m1 tf1 m2 tf2 i' j')))"
      by (rule "1.IH" [OF True row "1.prems"])
    also have "(?row \<or> (\<exists>i'. i + 1 \<le> i' \<and> i' < num_tris m1 \<and>
                            (\<exists>j'. j' < num_tris m2 \<and> tri_pair_hit m1 tf1 m2 tf2 i' j'))) =
        (collision \<or> (\<exists>i'. i \<le> i' \<and> i' < num_tris m1 \<and>
                            (\<exists>j'. j' < num_tris m2 \<and> tri_pair_hit m1 tf1 m2 tf2 i' j')))"
      unfolding ex_from_split [OF True, of "\<lambda>i'. \<exists>j'. j' < num_tris m2 \<and> tri_pair_hit m1 tf1 m2 tf2 i' j'"]
      by blast
    finally show ?thesis .
  qed
qed

lemma narrow_loop_j_no_tris:
  "num_tris m2 = 0 \<Longrightarrow> narrow_loop_j m1 tf1 m2 tf2 i j collision = Inr collision"
  by (subst narrow_loop_j.simps) simp

lemma narrow_loop_i_no_tris2:
  "num_tris m2 = 0 \<Longrightarrow> narrow_loop_i m1 tf1 m2 tf2 i collision = Inr collision"
proof (induction m1 tf1 m2 tf2 i collision rule: narrow_loop_i.induct)
  case (1 m1 tf1 m2 tf2 i collision)
  show ?case
  proof (cases "i < num_tris m1")
    case True
    have row: "narrow_loop_j m1 tf1 m2 tf2 i 0 collision = Inr collision"
      using "1.prems" by (rule narrow_loop_j_no_tris)
    have "narrow_loop_i m1 tf1 m2 tf2 i collision = narrow_loop_i m1 tf1 m2 tf2 (i + 1) collision"
      by (subst narrow_loop_i.simps) (simp add: True row)
    then show ?thesis
      by (simp only: "1.IH" [OF True row "1.prems"])
  next
    case False
    then show ?thesis by (subst narrow_loop_i.simps) simp
  qed
qed

lemma narrow_loop_i_no_tris1:
  "num_tris m1 = 0 \<Longrightarrow> narrow_loop_i m1 tf1 m2 tf2 i collision = Inr collision"
  by (subst narrow_loop_i.simps) simp

lemma tri_pair_hit_sym:
  "tri_pair_hit m1 tf1 m2 tf2 i j = tri_pair_hit m2 tf2 m1 tf1 j i"
  unfolding tri_pair_hit_def Let_def by (rule TriTriIntersect_sym)

lemma AtayBayazitCollide_rejected:
  "\<not> PrimitiveBroadPhase m1 tf1 m2 tf2 \<Longrightarrow> AtayBayazitCollide m1 tf1 m2 tf2 = Inr False"
  by (simp add: AtayBayazitCollide_def)

lemma AtayBayazitCollide_closed:
  assumes "indices_in_bounds m1" "indices_in_bounds m2"
  shows "AtayBayazitCollide m1 tf1 m2 tf2 =
     Inr (PrimitiveBroadPhase m1 tf1 m2 tf2 \<and>
          (\<exists>i j. i < num_tris m1 \<and> j < num_tris m2 \<and> tri_pair_hit m1 tf1 m2 tf2 i j))"
  by (auto simp add: AtayBayazitCollide_def narrow_loop_i_closed [OF assms])

section \<open>Properties of the triangle test over doubles\<close>

lemma proj_loop_fp_from_1:
  "proj_loop_fp rnd axis U 1 p q =
     (std_min (std_min p (fdot rnd axis (at3 U 1))) (fdot rnd axis (at3 U 2)),
      std_max (std_max q (fdot rnd axis (at3 U 1))) (fdot rnd axis (at3 U 2)))"
proof -
  have one: "proj_loop_fp rnd axis U 1 p q =
      proj_loop_fp rnd axis U 2 (std_min p (fdot rnd axis (at3 U 1)))
        (std_max q (fdot rnd axis (at3 U 1)))"
    by (subst proj_loop_fp.simps) (simp add: Let_def numeral_2_eq_2)
  have two: "proj_loop_fp rnd axis U 2 a b =
      proj_loop_fp rnd axis U 3 (std_min a (fdot rnd axis (at3 U 2)))
        (std_max b (fdot rnd axis (at3 U 2)))" for a b
    by (subst proj_loop_fp.simps) (simp add: Let_def numeral_2_eq_2 numeral_3_eq_3)
  have three: "proj_loop_fp rnd axis U 3 a b = (a, b)" for a b
    by (subst proj_loop_fp.simps) simp
  show ?thesis by (simp only: one two three)
qed

lemma checkOverlapOnAxis_fp_closed:
  "checkOverlapOnAxis_fp rnd axis U V =
     (fless (fsquaredNorm rnd axis) (fp_round rnd (1 / 10 ^ 8)) \<or>
      \<not> (fless (fp_max rnd axis U) (fp_min rnd axis V) \<or>
         fless (fp_max rnd axis V) (fp_min rnd axis U)))"
  unfolding checkOverlapOnAxis_fp_def proj_loop_fp_from_1 fp_min_def fp_max_def Let_def prod.case
  by (rule if_chain_bool)

lemma cross_loop_j_fp_closed:
  "cross_loop_j_fp rnd eU eV U V i 0 =
     (checkOverlapOnAxis_fp rnd (fcross rnd (at3 eU i) (at3 eV 0)) U V \<and>
      checkOverlapOnAxis_fp rnd (fcross rnd (at3 eU i) (at3 eV 1)) U V \<and>
      checkOverlapOnAxis_fp rnd (fcross rnd (at3 eU i) (at3 eV 2)) U V)"
proof -
  have s: "cross_loop_j_fp rnd eU eV U V i j =
      (if j < 3 then checkOverlapOnAxis_fp rnd (fcross rnd (at3 eU i) (at3 eV j)) U V \<and>
                     cross_loop_j_fp rnd eU eV U V i (j + 1) else True)" for j
    by (subst cross_loop_j_fp.simps) (simp add: Let_def)
  have "cross_loop_j_fp rnd eU eV U V i 3 = True" by (subst s) simp
  then have "cross_loop_j_fp rnd eU eV U V i 2 =
      checkOverlapOnAxis_fp rnd (fcross rnd (at3 eU i) (at3 eV 2)) U V"
    by (subst s) (simp add: numeral_3_eq_3 numeral_2_eq_2)
  then have "cross_loop_j_fp rnd eU eV U V i 1 =
     (checkOverlapOnAxis_fp rnd (fcross rnd (at3 eU i) (at3 eV 1)) U V \<and>
      checkOverlapOnAxis_fp rnd (fcross rnd (at3 eU i) (at3 eV 2)) U V)"
    by (subst s) (simp add: numeral_2_eq_2)
  then show ?thesis by (subst s) simp
qed

lemma cross_loop_i_fp_closed:
  "cross_loop_i_fp rnd eU eV U V 0 =
     (cross_loop_j_fp rnd eU eV U V 0 0 \<and> cross_loop_j_fp rnd eU eV U V 1 0 \<and>
      cross_loop_j_fp rnd eU eV U V 2 0)"
proof -
  have s: "cross_loop_i_fp rnd eU eV U V i =
      (if i < 3 then cross_loop_j_fp rnd eU eV U V i 0 \<and> cross_loop_i_fp rnd eU eV U V (i + 1)
       else True)" for i
    by (subst cross_loop_i_fp.simps) simp
  have "cross_loop_i_fp rnd eU eV U V 3 = True" by (subst s) simp
  then have "cross_loop_i_fp rnd eU eV U V 2 = cross_loop_j_fp rnd eU eV U V 2 0"
    by (subst s) (simp add: numeral_3_eq_3 numeral_2_eq_2)
  then have "cross_loop_i_fp rnd eU eV U V 1 =
      (cross_loop_j_fp rnd eU eV U V 1 0 \<and> cross_loop_j_fp rnd eU eV U V 2 0)"
    by (subst s) (simp add: numeral_2_eq_2)
  then show ?thesis by (subst s) simp
qed

lemma TriTriIntersect_fp_closed:
  "TriTriIntersect_fp rnd U0 U1 U2 V0 V1 V2 =
     list_all (\<lambda>axis. checkOverlapOnAxis_fp rnd axis (Arr3 U0 U1 U2) (Arr3 V0 V1 V2))
       (fp_axes rnd (Arr3 U0 U1 U2) (Arr3 V0 V1 V2))"
  by (simp add: TriTriIntersect_fp_def Let_def cross_loop_i_fp_closed cross_loop_j_fp_closed
        fp_axes_def fp_edges_def)

lemma rounding_abs:
  assumes "rounding rnd" "\<bar>x\<bar> \<le> 2 ^ k"
  shows "\<bar>rnd x\<bar> \<le> 2 ^ k"
proof -
  from assms(1) have m: "mono rnd" and p: "rnd (2 ^ k) = 2 ^ k" and n: "rnd (- (2 ^ k)) = - rnd (2 ^ k)"
    by (simp_all add: rounding_def)
  from assms(2) have "x \<le> 2 ^ k" "- (2 ^ k) \<le> x" by simp_all
  then have "rnd x \<le> rnd (2 ^ k)" "rnd (- (2 ^ k)) \<le> rnd x"
    using m by (simp_all add: monoD)
  then show ?thesis using p n by simp
qed

lemma fp_round_le:
  assumes "rounding rnd" "\<bar>x\<bar> \<le> 2 ^ k" "k < 1024"
  shows "fin_le (2 ^ k) (fp_round rnd x)"
proof -
  have a: "\<bar>rnd x\<bar> \<le> 2 ^ k" using assms(1,2) by (rule rounding_abs)
  have "(2::real) ^ k < huge"
    unfolding huge_def using assms(3) by (rule power_strict_increasing) simp
  with a have "\<not> huge \<le> rnd x" "\<not> rnd x \<le> - huge" by simp_all
  then show ?thesis using a by (simp add: fp_round_def Let_def)
qed

lemma fin_le_mono: "fin_le b x \<Longrightarrow> b \<le> c \<Longrightarrow> fin_le c x"
  by (cases x) simp_all

lemma fin_le_pow_mono:
  assumes "fin_le (2 ^ j) x" "j \<le> k"
  shows "fin_le (2 ^ k) x"
proof -
  have "(2::real) ^ j \<le> 2 ^ k" using assms(2) by (rule power_increasing) simp
  with assms(1) show ?thesis by (rule fin_le_mono)
qed

lemma fin_le_fneg: "fin_le b x \<Longrightarrow> fin_le b (fneg x)"
  by (cases x) simp_all

lemma fadd_le:
  assumes "rounding rnd" "fin_le (2 ^ k) x" "fin_le (2 ^ k) y" "Suc k < 1024"
  shows "fin_le (2 ^ Suc k) (fadd rnd x y)"
proof -
  from assms(2,3) obtain a b where x: "x = Fin a" "\<bar>a\<bar> \<le> 2 ^ k" and y: "y = Fin b" "\<bar>b\<bar> \<le> 2 ^ k"
    by (cases x; cases y) simp_all
  have "\<bar>a + b\<bar> \<le> 2 ^ Suc k" using x(2) y(2) by simp
  then show ?thesis
    using fp_round_le [OF assms(1) _ assms(4)] by (simp add: x y)
qed

lemma fsub_le:
  assumes "rounding rnd" "fin_le (2 ^ k) x" "fin_le (2 ^ k) y" "Suc k < 1024"
  shows "fin_le (2 ^ Suc k) (fsub rnd x y)"
  unfolding fsub_def using assms by (intro fadd_le fin_le_fneg)

lemma fmul_le:
  assumes "rounding rnd" "fin_le (2 ^ j) x" "fin_le (2 ^ k) y" "j + k < 1024"
  shows "fin_le (2 ^ (j + k)) (fmul rnd x y)"
proof -
  from assms(2,3) obtain a b where x: "x = Fin a" "\<bar>a\<bar> \<le> 2 ^ j" and y: "y = Fin b" "\<bar>b\<bar> \<le> 2 ^ k"
    by (cases x; cases y) simp_all
  have "\<bar>a * b\<bar> \<le> 2 ^ j * 2 ^ k"
    unfolding abs_mult using x(2) y(2) by (intro mult_mono) simp_all
  then have "\<bar>a * b\<bar> \<le> 2 ^ (j + k)" by (simp add: power_add)
  then show ?thesis
    using fp_round_le [OF assms(1) _ assms(4)] by (simp add: x y)
qed

lemma fvsub_le:
  assumes "rounding rnd" "vec_le (2 ^ k) a" "vec_le (2 ^ k) b" "Suc k < 1024"
  shows "vec_le (2 ^ Suc k) (fvsub rnd a b)"
  using assms by (simp add: vec_le_def fvsub_def fsub_le del: power_Suc)

lemma fcross_le:
  assumes "rounding rnd" "vec_le (2 ^ k) a" "vec_le (2 ^ k) b" "Suc (k + k) < 1024"
  shows "vec_le (2 ^ Suc (k + k)) (fcross rnd a b)"
proof -
  have kk: "k + k < 1024" using assms(4) by simp
  have p: "fin_le (2 ^ (k + k)) (fmul rnd x y)" if "fin_le (2 ^ k) x" "fin_le (2 ^ k) y" for x y
    using assms(1) that kk by (rule fmul_le)
  show ?thesis
    using assms(2,3)
    by (simp add: vec_le_def fcross_def fsub_le [OF assms(1) _ _ assms(4)] p del: power_Suc)
qed

lemma fdot_le:
  assumes "rounding rnd" "vec_le (2 ^ j) a" "vec_le (2 ^ k) b" "Suc (Suc (j + k)) < 1024"
  shows "fin_le (2 ^ Suc (Suc (j + k))) (fdot rnd a b)"
proof -
  have jk: "j + k < 1024" "Suc (j + k) < 1024" using assms(4) by simp_all
  have p: "fin_le (2 ^ (j + k)) (fmul rnd x y)" if "fin_le (2 ^ j) x" "fin_le (2 ^ k) y" for x y
    using assms(1) that jk(1) by (rule fmul_le)
  have px: "fin_le (2 ^ (j + k)) (fmul rnd (fx a) (fx b))"
    and py: "fin_le (2 ^ (j + k)) (fmul rnd (fy a) (fy b))"
    and pz: "fin_le (2 ^ (j + k)) (fmul rnd (fz a) (fz b))"
    using assms(2,3) by (simp_all add: vec_le_def p)
  have s: "fin_le (2 ^ Suc (j + k)) (fadd rnd (fmul rnd (fx a) (fx b)) (fmul rnd (fy a) (fy b)))"
    using assms(1) px py jk(2) by (rule fadd_le)
  have pz': "fin_le (2 ^ Suc (j + k)) (fmul rnd (fz a) (fz b))"
    using pz by (rule fin_le_pow_mono) simp
  show ?thesis
    unfolding fdot_def using assms(1) s pz' assms(4) by (rule fadd_le)
qed

lemma fin_leE:
  assumes "fin_le b x"
  obtains r where "x = Fin r"
  using assms by (cases x) simp_all

lemma std_min_Fin: "std_min (Fin a) (Fin b) = Fin (min a b)"
  by (simp add: std_min_def min_def)

lemma std_max_Fin: "std_max (Fin a) (Fin b) = Fin (max a b)"
  by (simp add: std_max_def max_def)

lemma no_gap_shared:
  fixes a0 a1 a2 b0 b1 b2 :: real
  assumes "p \<in> {a0, a1, a2}" "p \<in> {b0, b1, b2}"
  shows "\<not> (max (max a0 a1) a2 < min (min b0 b1) b2 \<or> max (max b0 b1) b2 < min (min a0 a1) a2)"
proof -
  have "min (min a0 a1) a2 \<le> p" "p \<le> max (max a0 a1) a2"
    using assms(1) by (auto simp add: min_le_iff_disj le_max_iff_disj)
  moreover have "min (min b0 b1) b2 \<le> p" "p \<le> max (max b0 b1) b2"
    using assms(2) by (auto simp add: min_le_iff_disj le_max_iff_disj)
  ultimately show ?thesis by linarith
qed

lemma checkOverlapOnAxis_fp_shared:
  assumes r: "rounding rnd"
    and axis: "vec_le (2 ^ c) axis"
    and U: "tri_le (2 ^ k) U" and V: "tri_le (2 ^ k) V"
    and ck: "Suc (Suc (c + k)) < 1024"
    and shared: "w \<in> {at3 U 0, at3 U 1, at3 U 2}" "w \<in> {at3 V 0, at3 V 1, at3 V 2}"
  shows "checkOverlapOnAxis_fp rnd axis U V"
proof -
  have fin: "\<exists>x. fdot rnd axis v = Fin x" if "vec_le (2 ^ k) v" for v
    using fdot_le [OF r axis that ck] by (auto elim: fin_leE)
  obtain a0 a1 a2 where a: "fdot rnd axis (at3 U 0) = Fin a0" "fdot rnd axis (at3 U 1) = Fin a1"
      "fdot rnd axis (at3 U 2) = Fin a2"
    using U fin unfolding tri_le_def by metis
  obtain b0 b1 b2 where b: "fdot rnd axis (at3 V 0) = Fin b0" "fdot rnd axis (at3 V 1) = Fin b1"
      "fdot rnd axis (at3 V 2) = Fin b2"
    using V fin unfolding tri_le_def by metis
  have "vec_le (2 ^ k) w" using shared(1) U unfolding tri_le_def by auto
  then obtain p where p: "fdot rnd axis w = Fin p" using fin by blast
  have pa: "p \<in> {a0, a1, a2}" using shared(1) a p by auto
  have pb: "p \<in> {b0, b1, b2}" using shared(2) b p by auto
  have "\<not> (fless (fp_max rnd axis U) (fp_min rnd axis V) \<or>
           fless (fp_max rnd axis V) (fp_min rnd axis U))"
    unfolding fp_max_def fp_min_def a b std_min_Fin std_max_Fin fless.simps
    using pa pb by (rule no_gap_shared)
  then show ?thesis by (simp add: checkOverlapOnAxis_fp_closed)
qed

lemma TriTriIntersect_fp_shared_gen:
  assumes r: "rounding rnd"
    and k: "Suc (Suc (Suc (Suc k + Suc k) + k)) < 1024"
    and U: "tri_le (2 ^ k) (Arr3 U0 U1 U2)" and V: "tri_le (2 ^ k) (Arr3 V0 V1 V2)"
    and shared: "w \<in> {U0, U1, U2}" "w \<in> {V0, V1, V2}"
  shows "TriTriIntersect_fp rnd U0 U1 U2 V0 V1 V2"
proof -
  let ?U = "Arr3 U0 U1 U2" and ?V = "Arr3 V0 V1 V2"
  define c where "c = Suc (Suc k + Suc k)"
  have k1: "Suc k < 1024" and k2: "Suc (Suc k + Suc k) < 1024"
    and k3: "Suc (Suc (c + k)) < 1024"
    using k by (simp_all add: c_def)
  have vs: "vec_le (2 ^ k) U0" "vec_le (2 ^ k) U1" "vec_le (2 ^ k) U2"
    "vec_le (2 ^ k) V0" "vec_le (2 ^ k) V1" "vec_le (2 ^ k) V2"
    using U V by (simp_all add: tri_le_def)
  have x: "vec_le (2 ^ c) (fcross rnd (fvsub rnd a b) (fvsub rnd a' b'))"
    if "vec_le (2 ^ k) a" "vec_le (2 ^ k) b" "vec_le (2 ^ k) a'" "vec_le (2 ^ k) b'"
    for a b a' b'
    unfolding c_def using r fvsub_le [OF r that(1,2) k1] fvsub_le [OF r that(3,4) k1] k2
    by (rule fcross_le)
  have axes: "vec_le (2 ^ c) axis" if "axis \<in> set (fp_axes rnd ?U ?V)" for axis
    using that by (auto simp add: fp_axes_def fp_edges_def intro!: x vs)
  have sh: "w \<in> {at3 ?U 0, at3 ?U 1, at3 ?U 2}" "w \<in> {at3 ?V 0, at3 ?V 1, at3 ?V 2}"
    using shared by simp_all
  have "checkOverlapOnAxis_fp rnd axis ?U ?V" if "axis \<in> set (fp_axes rnd ?U ?V)" for axis
    using r axes [OF that] U V k3 sh by (rule checkOverlapOnAxis_fp_shared)
  then show ?thesis
    by (simp add: TriTriIntersect_fp_closed list_all_iff)
qed

lemma rounding_exact: "rounding exact"
  by (simp add: rounding_def exact_def mono_def)

lemma huge_gt: "1 < huge"
  unfolding huge_def by (rule one_less_power) simp_all

lemma far_gt: "1 < far"
  unfolding far_def by (rule one_less_power) simp_all

lemma far_lt_huge: "far < huge"
  unfolding far_def huge_def by (rule power_strict_increasing) simp_all

lemma far_sq: "huge \<le> far * far"
  unfolding far_def huge_def power_add [symmetric] by (rule power_increasing) simp_all

lemmas eval_fp_far = fsquaredNorm_def fdot_def fcross_def fvsub_def fsub_def fp_round_def
  inf_times_def exact_def Let_def

section \<open>Evaluation on the concrete inputs\<close>

lemmas eval_geom = squaredNorm_def dot_def cross_def vsub_def apply_tf_def

lemmas eval_mesh = num_vertices_def num_tris_def mesh_tri_def mesh_no_tris_def
  mesh_no_vertices_def mesh_bad_index_def translate_by_def Identity_def

lemma eval_far:
  "\<not> PrimitiveBroadPhase mesh_tri Identity mesh_tri (translate_by (Vec3 10 0 0))"
  by (simp add: PrimitiveBroadPhase_def eval_mesh eval_geom aabb_loop.simps)

lemma eval_near:
  "PrimitiveBroadPhase mesh_tri Identity mesh_tri (translate_by (Vec3 (1/4) (1/4) 0))"
  by (simp add: PrimitiveBroadPhase_def eval_mesh eval_geom aabb_loop.simps)

lemma eval_in_bounds: "indices_in_bounds mesh_tri"
  by (simp add: indices_in_bounds_def tri_in_bounds_def eval_mesh)

lemma eval_hit:
  "tri_pair_hit mesh_tri Identity mesh_tri (translate_by (Vec3 (1/4) (1/4) 0)) 0 0"
  by (simp add: tri_pair_hit_def world_vertex_def TriTriIntersect_def checkOverlapOnAxis_def
      eval_mesh eval_geom proj_loop.simps cross_loop_i.simps cross_loop_j.simps)

lemma eval_collide_near:
  "AtayBayazitCollide mesh_tri Identity mesh_tri (translate_by (Vec3 (1/4) (1/4) 0)) = Inr True"
  by (simp add: AtayBayazitCollide_def PrimitiveBroadPhase_def world_tri_def vertex_read_def
      TriTriIntersect_def checkOverlapOnAxis_def eval_mesh eval_geom aabb_loop.simps
      narrow_loop_i.simps narrow_loop_j.simps proj_loop.simps cross_loop_i.simps
      cross_loop_j.simps)

section \<open>The claims\<close>

text \<open>
  C1. The facade \<open>AtayBayazitCollide\<close> returns false whenever \<open>PrimitiveBroadPhase\<close>
  returns false, whatever the triangle data (even index triples that could not be read:
  no triangle pair is evaluated). When \<open>PrimitiveBroadPhase\<close> returns true, it returns
  true if and only if there is an index pair \<open>i < num_tris m1\<close>, \<open>j < num_tris m2\<close> on
  which \<open>TriTriIntersect\<close> holds for the vertices of the two triangles, each transformed by
  the transform of its mesh. The second part is for index-consistent meshes, the only ones
  whose triangles have vertices.
\<close>

theorem AtayBayazitCollide_facade:
  "(\<not> PrimitiveBroadPhase m1 tf1 m2 tf2 \<longrightarrow> AtayBayazitCollide m1 tf1 m2 tf2 = Inr False) \<and>
   (PrimitiveBroadPhase m1 tf1 m2 tf2 \<and> indices_in_bounds m1 \<and> indices_in_bounds m2 \<longrightarrow>
      AtayBayazitCollide m1 tf1 m2 tf2 =
        Inr (\<exists>i j. i < num_tris m1 \<and> j < num_tris m2 \<and> tri_pair_hit m1 tf1 m2 tf2 i j))"
  by (simp add: AtayBayazitCollide_rejected AtayBayazitCollide_closed)

theorem AtayBayazitCollide_facade_witness:
  "\<not> PrimitiveBroadPhase mesh_tri Identity mesh_tri (translate_by (Vec3 10 0 0)) \<and>
   AtayBayazitCollide mesh_tri Identity mesh_tri (translate_by (Vec3 10 0 0)) = Inr False \<and>
   PrimitiveBroadPhase mesh_tri Identity mesh_tri (translate_by (Vec3 (1/4) (1/4) 0)) \<and>
   indices_in_bounds mesh_tri \<and>
   tri_pair_hit mesh_tri Identity mesh_tri (translate_by (Vec3 (1/4) (1/4) 0)) 0 0 \<and>
   AtayBayazitCollide mesh_tri Identity mesh_tri (translate_by (Vec3 (1/4) (1/4) 0)) = Inr True"
proof -
  have n: "(0::nat) < num_tris mesh_tri" by (simp add: eval_mesh)
  show ?thesis
    using eval_far eval_near eval_in_bounds eval_hit n
      AtayBayazitCollide_facade [of mesh_tri Identity mesh_tri "translate_by (Vec3 10 0 0)"]
      AtayBayazitCollide_facade [of mesh_tri Identity mesh_tri "translate_by (Vec3 (1/4) (1/4) 0)"]
    by auto
qed

text \<open>
  C2. \<open>TriTriIntersect\<close> returns false if and only if at least one of the eleven candidate
  axes (the face normal of each triangle, the cross product of its first two edges, and the
  nine cross products of an edge of the first with an edge of the second) fails the
  axis-overlap test; if all eleven report overlap it returns true.
\<close>

theorem TriTriIntersect_eleven_axes:
  "length (sat_axes (Arr3 U0 U1 U2) (Arr3 V0 V1 V2)) = 11 \<and>
   (TriTriIntersect U0 U1 U2 V0 V1 V2 = False \<longleftrightarrow>
      (\<exists>axis \<in> set (sat_axes (Arr3 U0 U1 U2) (Arr3 V0 V1 V2)).
          \<not> checkOverlapOnAxis axis (Arr3 U0 U1 U2) (Arr3 V0 V1 V2))) \<and>
   ((\<forall>axis \<in> set (sat_axes (Arr3 U0 U1 U2) (Arr3 V0 V1 V2)).
        checkOverlapOnAxis axis (Arr3 U0 U1 U2) (Arr3 V0 V1 V2)) \<longrightarrow>
      TriTriIntersect U0 U1 U2 V0 V1 V2 = True)"
  unfolding TriTriIntersect_closed list_all_iff by (simp add: sat_axes_def)

theorem TriTriIntersect_eleven_axes_witness:
  "Vec3 0 0 1 \<in> set (sat_axes triA triA_up5) \<and>
   \<not> checkOverlapOnAxis (Vec3 0 0 1) triA triA_up5 \<and>
   TriTriIntersect (Vec3 0 0 0) (Vec3 1 0 0) (Vec3 0 1 0)
                   (Vec3 0 0 5) (Vec3 1 0 5) (Vec3 0 1 5) = False \<and>
   list_all (\<lambda>axis. checkOverlapOnAxis axis triA triA) (sat_axes triA triA) \<and>
   TriTriIntersect (Vec3 0 0 0) (Vec3 1 0 0) (Vec3 0 1 0)
                   (Vec3 0 0 0) (Vec3 1 0 0) (Vec3 0 1 0) = True"
proof -
  have mem: "Vec3 0 0 1 \<in> set (sat_axes triA triA_up5)"
    by (simp add: sat_axes_def tri_edges_def triA_def triA_up5_def eval_geom)
  have gap: "\<not> checkOverlapOnAxis (Vec3 0 0 1) triA triA_up5"
    by (simp add: checkOverlapOnAxis_def triA_def triA_up5_def eval_geom proj_loop.simps)
  have all: "list_all (\<lambda>axis. checkOverlapOnAxis axis triA triA) (sat_axes triA triA)"
    by (simp add: sat_axes_def tri_edges_def checkOverlapOnAxis_def triA_def eval_geom
          proj_loop.simps)
  show ?thesis
    using mem gap all
      TriTriIntersect_eleven_axes [of "Vec3 0 0 0" "Vec3 1 0 0" "Vec3 0 1 0"
                                      "Vec3 0 0 5" "Vec3 1 0 5" "Vec3 0 1 5"]
      TriTriIntersect_eleven_axes [of "Vec3 0 0 0" "Vec3 1 0 0" "Vec3 0 1 0"
                                      "Vec3 0 0 0" "Vec3 1 0 0" "Vec3 0 1 0"]
    unfolding triA_def triA_up5_def list_all_iff by blast
qed



text \<open>
  C4. \<open>PrimitiveBroadPhase\<close> returns false if either mesh has no vertices; otherwise it
  returns true if and only if the bounding boxes of the two meshes (per coordinate, the
  least and the greatest value over all transformed vertices) overlap on all three
  coordinates, touching included.
\<close>

theorem PrimitiveBroadPhase_aabb:
  "(num_vertices m1 = 0 \<or> num_vertices m2 = 0 \<longrightarrow> PrimitiveBroadPhase m1 tf1 m2 tf2 = False) \<and>
   (num_vertices m1 \<noteq> 0 \<and> num_vertices m2 \<noteq> 0 \<longrightarrow>
      PrimitiveBroadPhase m1 tf1 m2 tf2 =
        (boxes_overlap_on vx m1 tf1 m2 tf2 \<and> boxes_overlap_on vy m1 tf1 m2 tf2 \<and>
         boxes_overlap_on vz m1 tf1 m2 tf2))"
  using PrimitiveBroadPhase_empty [of m1 m2 tf1 tf2] PrimitiveBroadPhase_closed [of m1 m2 tf1 tf2]
  by blast

theorem PrimitiveBroadPhase_aabb_witness:
  "num_vertices mesh_no_vertices = 0 \<and>
   PrimitiveBroadPhase mesh_no_vertices Identity mesh_tri Identity = False \<and>
   num_vertices mesh_tri \<noteq> 0 \<and>
   box_max vx mesh_tri Identity < box_min vx mesh_tri (translate_by (Vec3 10 0 0)) \<and>
   PrimitiveBroadPhase mesh_tri Identity mesh_tri (translate_by (Vec3 10 0 0)) = False \<and>
   boxes_overlap_on vx mesh_tri Identity mesh_tri (translate_by (Vec3 1 0 0)) \<and>
   boxes_overlap_on vy mesh_tri Identity mesh_tri (translate_by (Vec3 1 0 0)) \<and>
   boxes_overlap_on vz mesh_tri Identity mesh_tri (translate_by (Vec3 1 0 0)) \<and>
   PrimitiveBroadPhase mesh_tri Identity mesh_tri (translate_by (Vec3 1 0 0)) = True"
proof -
  have a: "num_vertices mesh_no_vertices = 0" "num_vertices mesh_tri \<noteq> 0"
    by (simp_all add: eval_mesh)
  have b: "box_max vx mesh_tri Identity < box_min vx mesh_tri (translate_by (Vec3 10 0 0))"
    by (simp add: box_max_def box_min_def world_vertices_def eval_mesh eval_geom)
  have c: "boxes_overlap_on vx mesh_tri Identity mesh_tri (translate_by (Vec3 1 0 0))"
    "boxes_overlap_on vy mesh_tri Identity mesh_tri (translate_by (Vec3 1 0 0))"
    "boxes_overlap_on vz mesh_tri Identity mesh_tri (translate_by (Vec3 1 0 0))"
    by (simp_all add: boxes_overlap_on_def box_max_def box_min_def world_vertices_def
          eval_mesh eval_geom)
  show ?thesis
    using a b c
      PrimitiveBroadPhase_aabb [of mesh_no_vertices mesh_tri Identity Identity]
      PrimitiveBroadPhase_aabb [of mesh_tri mesh_tri Identity "translate_by (Vec3 10 0 0)"]
      PrimitiveBroadPhase_aabb [of mesh_tri mesh_tri Identity "translate_by (Vec3 1 0 0)"]
    by (simp add: boxes_overlap_on_def)
qed

text \<open>
  C5, as stated, fails: a query on a mesh with a triangle index past the end of its
  vertex buffer signals nothing. Here triangle 0 of \<open>mesh_bad_index\<close> names vertex 7 of
  3. With the other mesh ten units away the broad phase rejects the pair and the query
  returns false; with the other mesh in place the narrow phase reads past the end of the
  buffer.
\<close>

theorem AtayBayazitCollide_validation_counterexample:
  "\<not> indices_in_bounds mesh_bad_index \<and>
   AtayBayazitCollide mesh_bad_index Identity mesh_tri (translate_by (Vec3 10 0 0)) = Inr False \<and>
   AtayBayazitCollide mesh_bad_index Identity mesh_tri Identity = Inl OutOfBoundsRead"
  by (simp add: indices_in_bounds_def tri_in_bounds_def AtayBayazitCollide_def
        PrimitiveBroadPhase_def world_tri_def vertex_read_def
        eval_mesh eval_geom aabb_loop.simps narrow_loop_i.simps narrow_loop_j.simps)

text \<open>
  C5, amended. The query validates no index and signals no invalid-argument condition;
  index consistency is the caller's obligation. When every triangle index of both meshes
  is inside its vertex buffer the query returns a boolean and reads nothing out of bounds;
  and when the broad phase rejects the pair it returns false without reading any triangle,
  whatever the indices are.
\<close>

theorem AtayBayazitCollide_no_validation:
  "(indices_in_bounds m1 \<and> indices_in_bounds m2 \<longrightarrow>
      (\<exists>b. AtayBayazitCollide m1 tf1 m2 tf2 = Inr b)) \<and>
   (\<not> PrimitiveBroadPhase m1 tf1 m2 tf2 \<longrightarrow> AtayBayazitCollide m1 tf1 m2 tf2 = Inr False)"
  by (simp add: AtayBayazitCollide_rejected AtayBayazitCollide_closed)

theorem AtayBayazitCollide_no_validation_witness:
  "indices_in_bounds mesh_tri \<and>
   (\<exists>b. AtayBayazitCollide mesh_tri Identity mesh_tri Identity = Inr b) \<and>
   \<not> PrimitiveBroadPhase mesh_bad_index Identity mesh_bad_index (translate_by (Vec3 10 0 0)) \<and>
   AtayBayazitCollide mesh_bad_index Identity mesh_bad_index (translate_by (Vec3 10 0 0)) = Inr False"
proof -
  have "\<not> PrimitiveBroadPhase mesh_bad_index Identity mesh_bad_index (translate_by (Vec3 10 0 0))"
    by (simp add: PrimitiveBroadPhase_def eval_mesh eval_geom aabb_loop.simps)
  then show ?thesis
    using eval_in_bounds
      AtayBayazitCollide_no_validation [of mesh_tri mesh_tri Identity Identity]
      AtayBayazitCollide_no_validation [of mesh_bad_index mesh_bad_index Identity
        "translate_by (Vec3 10 0 0)"]
    by blast
qed

text \<open>
  C6, as stated, fails: the broad phase does not look at triangles. A mesh with three
  vertices and no triangle, tested against a mesh in the same place, passes the broad
  phase.
\<close>

theorem PrimitiveBroadPhase_zero_triangles_counterexample:
  "num_tris mesh_no_tris = 0 \<and>
   PrimitiveBroadPhase mesh_no_tris Identity mesh_tri Identity = True"
  by (simp add: PrimitiveBroadPhase_def eval_mesh eval_geom aabb_loop.simps)

text \<open>
  C6, amended. \<open>PrimitiveBroadPhase\<close> returns false whenever either mesh has zero
  vertices; its result does not depend on the triangle lists, so a mesh with vertices
  and zero triangles is tested by its bounding box like any other.
\<close>

theorem PrimitiveBroadPhase_vertices_only:
  "(num_vertices m1 = 0 \<or> num_vertices m2 = 0 \<longrightarrow>
      PrimitiveBroadPhase m1 tf1 m2 tf2 = False) \<and>
   PrimitiveBroadPhase (m1\<lparr>tri_indices := ts1\<rparr>) tf1 (m2\<lparr>tri_indices := ts2\<rparr>) tf2 =
     PrimitiveBroadPhase m1 tf1 m2 tf2"
  by (simp add: PrimitiveBroadPhase_def num_vertices_def)

theorem PrimitiveBroadPhase_vertices_only_witness:
  "num_vertices mesh_no_vertices = 0 \<and>
   PrimitiveBroadPhase mesh_tri Identity mesh_no_vertices Identity = False \<and>
   PrimitiveBroadPhase (mesh_tri\<lparr>tri_indices := []\<rparr>) Identity
                       (mesh_tri\<lparr>tri_indices := []\<rparr>) Identity =
     PrimitiveBroadPhase mesh_tri Identity mesh_tri Identity"
proof -
  have "num_vertices mesh_no_vertices = 0" by (simp add: eval_mesh)
  then show ?thesis
    using PrimitiveBroadPhase_vertices_only [of mesh_tri mesh_no_vertices Identity Identity]
      PrimitiveBroadPhase_vertices_only [of mesh_tri mesh_tri Identity Identity "[]" "[]"]
    by simp
qed

text \<open>
  C7. If either mesh has zero triangles, \<open>AtayBayazitCollide\<close> returns false, whatever the
  transforms and the other mesh are.
\<close>

theorem AtayBayazitCollide_no_triangles:
  assumes "num_tris m1 = 0 \<or> num_tris m2 = 0"
  shows "AtayBayazitCollide m1 tf1 m2 tf2 = Inr False"
  using assms
  by (auto simp add: AtayBayazitCollide_def narrow_loop_i_no_tris1 narrow_loop_i_no_tris2)

theorem AtayBayazitCollide_no_triangles_witness:
  "num_tris mesh_no_tris = 0 \<and>
   AtayBayazitCollide mesh_no_tris Identity mesh_tri Identity = Inr False \<and>
   AtayBayazitCollide mesh_bad_index Identity mesh_no_tris Identity = Inr False"
proof -
  have "num_tris mesh_no_tris = 0" by (simp add: eval_mesh)
  then show ?thesis
    using AtayBayazitCollide_no_triangles [of mesh_no_tris mesh_tri Identity Identity]
      AtayBayazitCollide_no_triangles [of mesh_bad_index mesh_no_tris Identity Identity]
    by simp
qed

text \<open>
  C8. The query is commutative in its arguments: \<open>AtayBayazitCollide m1 tf1 m2 tf2\<close> equals
  \<open>AtayBayazitCollide m2 tf2 m1 tf1\<close>, for index-consistent meshes (the inputs on which the
  C++ program has a defined result) and any two transforms.
\<close>

theorem AtayBayazitCollide_commutes:
  assumes "indices_in_bounds m1" "indices_in_bounds m2"
  shows "AtayBayazitCollide m1 tf1 m2 tf2 = AtayBayazitCollide m2 tf2 m1 tf1"
proof -
  have "(\<exists>i j. i < num_tris m1 \<and> j < num_tris m2 \<and> tri_pair_hit m1 tf1 m2 tf2 i j) =
        (\<exists>j i. j < num_tris m2 \<and> i < num_tris m1 \<and> tri_pair_hit m2 tf2 m1 tf1 j i)"
    using tri_pair_hit_sym [of m1 tf1 m2 tf2] by blast
  then show ?thesis
    by (simp only: AtayBayazitCollide_closed [OF assms] AtayBayazitCollide_closed [OF assms(2,1)]
          PrimitiveBroadPhase_sym [of m1 tf1 m2 tf2])
qed

theorem AtayBayazitCollide_commutes_witness:
  "indices_in_bounds mesh_tri \<and>
   AtayBayazitCollide mesh_tri Identity mesh_tri (translate_by (Vec3 (1/4) (1/4) 0)) = Inr True \<and>
   AtayBayazitCollide mesh_tri (translate_by (Vec3 (1/4) (1/4) 0)) mesh_tri Identity = Inr True"
  using eval_in_bounds eval_collide_near
    AtayBayazitCollide_commutes [of mesh_tri mesh_tri Identity "translate_by (Vec3 (1/4) (1/4) 0)"]
  by simp

text \<open>
  C9, as stated, fails on doubles. The two triangles below have finite coordinates, share
  exactly the vertex \<open>(0, 0, 0)\<close> and are otherwise disjoint (the first lies in the plane
  \<open>y = 0\<close> with \<open>z \<ge> 0\<close>, the second in the plane \<open>x = 0\<close> with \<open>z \<le> 0\<close>). The last of
  the eleven axes, \<open>edgeU[2] \<times> edgeV[2]\<close>, overflows to \<open>(0, 0, inf)\<close>; the shared vertex
  projects to \<open>inf * 0 = NaN\<close>, which \<open>std::min\<close> and \<open>std::max\<close> drop; the intervals are
  \<open>[inf, inf]\<close> and \<open>[-inf, -inf]\<close>, and the test returns false. Every finite intermediate
  result on this input is itself a double, so rounding changes nothing there, and the dot
  product gives the same values in either order of addition.
\<close>

theorem TriTriIntersect_fp_overflow_counterexample:
  "{FVec3 (Fin far) (Fin 0) (Fin 1), FVec3 (Fin 0) (Fin 0) (Fin 0),
    FVec3 (Fin 0) (Fin 0) (Fin 1)} \<inter>
   {FVec3 (Fin 0) (Fin far) (Fin (- 1)), FVec3 (Fin 0) (Fin 0) (Fin 0),
    FVec3 (Fin 0) (Fin 0) (Fin (- 1))} = {FVec3 (Fin 0) (Fin 0) (Fin 0)} \<and>
   TriTriIntersect_fp exact
     (FVec3 (Fin far) (Fin 0) (Fin 1)) (FVec3 (Fin 0) (Fin 0) (Fin 0))
     (FVec3 (Fin 0) (Fin 0) (Fin 1))
     (FVec3 (Fin 0) (Fin far) (Fin (- 1))) (FVec3 (Fin 0) (Fin 0) (Fin 0))
     (FVec3 (Fin 0) (Fin 0) (Fin (- 1))) = False"
proof -
  let ?U0 = "FVec3 (Fin far) (Fin 0) (Fin 1)" and ?U1 = "FVec3 (Fin 0) (Fin 0) (Fin 0)"
    and ?U2 = "FVec3 (Fin 0) (Fin 0) (Fin 1)"
  let ?V0 = "FVec3 (Fin 0) (Fin far) (Fin (- 1))" and ?V1 = "FVec3 (Fin 0) (Fin 0) (Fin 0)"
    and ?V2 = "FVec3 (Fin 0) (Fin 0) (Fin (- 1))"
  let ?axis = "FVec3 (Fin 0) (Fin 0) PInf"
  note arith = huge_gt far_gt far_lt_huge far_sq
  have s: "{?U0, ?U1, ?U2} \<inter> {?V0, ?V1, ?V2} = {FVec3 (Fin 0) (Fin 0) (Fin 0)}"
    using far_gt by auto
  have eU: "fvsub exact ?U0 ?U2 = FVec3 (Fin far) (Fin 0) (Fin 0)"
    using arith by (simp add: eval_fp_far)
  have eV: "fvsub exact ?V0 ?V2 = FVec3 (Fin 0) (Fin far) (Fin 0)"
    using arith by (simp add: eval_fp_far)
  have ax: "fcross exact (FVec3 (Fin far) (Fin 0) (Fin 0)) (FVec3 (Fin 0) (Fin far) (Fin 0)) = ?axis"
    using arith by (simp add: eval_fp_far)
  have last: "fcross exact (fvsub exact ?U0 ?U2) (fvsub exact ?V0 ?V2) = ?axis"
    unfolding eU eV by (rule ax)
  have "fcross exact (fvsub exact ?U0 ?U2) (fvsub exact ?V0 ?V2)
      \<in> set (fp_axes exact (Arr3 ?U0 ?U1 ?U2) (Arr3 ?V0 ?V1 ?V2))"
    by (simp add: fp_axes_def fp_edges_def)
  then have mem: "?axis \<in> set (fp_axes exact (Arr3 ?U0 ?U1 ?U2) (Arr3 ?V0 ?V1 ?V2))"
    unfolding last .
  have pU: "fdot exact ?axis ?U0 = PInf" "fdot exact ?axis ?U1 = NaN" "fdot exact ?axis ?U2 = PInf"
    using arith by (simp_all add: eval_fp_far)
  have pV: "fdot exact ?axis ?V0 = NInf" "fdot exact ?axis ?V1 = NaN" "fdot exact ?axis ?V2 = NInf"
    using arith by (simp_all add: eval_fp_far)
  have sq: "fsquaredNorm exact ?axis = PInf"
    using arith by (simp add: eval_fp_far)
  have gap: "\<not> checkOverlapOnAxis_fp exact ?axis (Arr3 ?U0 ?U1 ?U2) (Arr3 ?V0 ?V1 ?V2)"
    by (simp add: checkOverlapOnAxis_fp_closed fp_min_def fp_max_def pU pV sq
          std_min_def std_max_def)
  have "\<not> TriTriIntersect_fp exact ?U0 ?U1 ?U2 ?V0 ?V1 ?V2"
    unfolding TriTriIntersect_fp_closed list_all_iff using mem gap by blast
  with s show ?thesis by simp
qed

text \<open>
  C9, amended. For two triangles that share a vertex and whose coordinates are all finite
  and of magnitude at most \<open>2^339\<close>, \<open>TriTriIntersect\<close> returns true (touching counts as
  intersecting), for every rounding that is monotone, odd and leaves powers of two
  unchanged: within that bound no intermediate value overflows, so the shared vertex
  projects to the same finite number in both intervals on every axis.
\<close>

theorem TriTriIntersect_fp_shared_vertex:
  assumes "rounding rnd"
    and "vec_le (2 ^ 339) U0" "vec_le (2 ^ 339) U1" "vec_le (2 ^ 339) U2"
    and "vec_le (2 ^ 339) V0" "vec_le (2 ^ 339) V1" "vec_le (2 ^ 339) V2"
    and "{U0, U1, U2} \<inter> {V0, V1, V2} \<noteq> {}"
  shows "TriTriIntersect_fp rnd U0 U1 U2 V0 V1 V2 = True"
proof -
  from assms(8) obtain w where w: "w \<in> {U0, U1, U2}" "w \<in> {V0, V1, V2}" by blast
  have k: "Suc (Suc (Suc (Suc 339 + Suc 339) + 339)) < 1024" by simp
  have U: "tri_le (2 ^ 339) (Arr3 U0 U1 U2)" and V: "tri_le (2 ^ 339) (Arr3 V0 V1 V2)"
    unfolding tri_le_def using assms(2-7) by simp_all
  show ?thesis
    using TriTriIntersect_fp_shared_gen [OF assms(1) k U V w] by simp
qed

theorem TriTriIntersect_fp_shared_vertex_witness:
  "rounding exact \<and>
   vec_le (2 ^ 339) (FVec3 (Fin (2 ^ 300)) (Fin 0) (Fin 1)) \<and>
   vec_le (2 ^ 339) (FVec3 (Fin 0) (Fin 0) (Fin 0)) \<and>
   vec_le (2 ^ 339) (FVec3 (Fin 0) (Fin 0) (Fin 1)) \<and>
   vec_le (2 ^ 339) (FVec3 (Fin 0) (Fin (2 ^ 300)) (Fin (- 1))) \<and>
   vec_le (2 ^ 339) (FVec3 (Fin 0) (Fin 0) (Fin (- 1))) \<and>
   {FVec3 (Fin (2 ^ 300)) (Fin 0) (Fin 1), FVec3 (Fin 0) (Fin 0) (Fin 0),
    FVec3 (Fin 0) (Fin 0) (Fin 1)} \<inter>
   {FVec3 (Fin 0) (Fin (2 ^ 300)) (Fin (- 1)), FVec3 (Fin 0) (Fin 0) (Fin 0),
    FVec3 (Fin 0) (Fin 0) (Fin (- 1))} = {FVec3 (Fin 0) (Fin 0) (Fin 0)} \<and>
   TriTriIntersect_fp exact
     (FVec3 (Fin (2 ^ 300)) (Fin 0) (Fin 1)) (FVec3 (Fin 0) (Fin 0) (Fin 0))
     (FVec3 (Fin 0) (Fin 0) (Fin 1))
     (FVec3 (Fin 0) (Fin (2 ^ 300)) (Fin (- 1))) (FVec3 (Fin 0) (Fin 0) (Fin 0))
     (FVec3 (Fin 0) (Fin 0) (Fin (- 1))) = True"
proof -
  have b: "vec_le (2 ^ 339) (FVec3 (Fin (2 ^ 300)) (Fin 0) (Fin 1))"
    "vec_le (2 ^ 339) (FVec3 (Fin 0) (Fin 0) (Fin 0))"
    "vec_le (2 ^ 339) (FVec3 (Fin 0) (Fin 0) (Fin 1))"
    "vec_le (2 ^ 339) (FVec3 (Fin 0) (Fin (2 ^ 300)) (Fin (- 1)))"
    "vec_le (2 ^ 339) (FVec3 (Fin 0) (Fin 0) (Fin (- 1)))"
    by (simp_all add: vec_le_def)
  have s: "{FVec3 (Fin (2 ^ 300)) (Fin 0) (Fin 1), FVec3 (Fin 0) (Fin 0) (Fin 0),
      FVec3 (Fin 0) (Fin 0) (Fin 1)} \<inter>
     {FVec3 (Fin 0) (Fin (2 ^ 300)) (Fin (- 1)), FVec3 (Fin 0) (Fin 0) (Fin 0),
      FVec3 (Fin 0) (Fin 0) (Fin (- 1))} = {FVec3 (Fin 0) (Fin 0) (Fin 0)}"
    by auto
  show ?thesis
    using rounding_exact b s
      TriTriIntersect_fp_shared_vertex [of exact
        "FVec3 (Fin (2 ^ 300)) (Fin 0) (Fin 1)" "FVec3 (Fin 0) (Fin 0) (Fin 0)"
        "FVec3 (Fin 0) (Fin 0) (Fin 1)"
        "FVec3 (Fin 0) (Fin (2 ^ 300)) (Fin (- 1))" "FVec3 (Fin 0) (Fin 0) (Fin 0)"
        "FVec3 (Fin 0) (Fin 0) (Fin (- 1))"]
    by simp
qed

text \<open>
  C10. \<open>TriTriIntersect\<close> applied to a triangle and itself returns true, for every
  triangle, zero-area ones included: on every axis the two projected intervals are the
  same interval, so the axis test finds no gap.
\<close>

theorem TriTriIntersect_reflexive: "TriTriIntersect U0 U1 U2 U0 U1 U2 = True"
  by (simp add: TriTriIntersect_self)

theorem TriTriIntersect_reflexive_witness:
  "TriTriIntersect (Vec3 0 0 0) (Vec3 1 1 1) (Vec3 2 2 2)
                   (Vec3 0 0 0) (Vec3 1 1 1) (Vec3 2 2 2) = True \<and>
   TriTriIntersect (Vec3 3 4 5) (Vec3 3 4 5) (Vec3 3 4 5)
                   (Vec3 3 4 5) (Vec3 3 4 5) (Vec3 3 4 5) = True"
  using TriTriIntersect_reflexive [of "Vec3 0 0 0" "Vec3 1 1 1" "Vec3 2 2 2"]
    TriTriIntersect_reflexive [of "Vec3 3 4 5" "Vec3 3 4 5" "Vec3 3 4 5"]
  by simp

end
